theory Spec2Isabelle
  imports Main "HOL-Library.Sublist"
begin

section \<open>Python text\<close>

text \<open>
  A Python \<^verbatim>\<open>str\<close> is a sequence of Unicode code points, so texts are lists of
  code points; \<open>ustr\<close> embeds a literal. \<open>is_space\<close> lists the code points that
  \<^verbatim>\<open>str.strip()\<close> removes (those for which \<^verbatim>\<open>str.isspace()\<close> holds).
\<close>

type_synonym ustring = "nat list"

definition ustr :: "string \<Rightarrow> ustring" where
  "ustr s = map of_char s"

definition is_space :: "nat \<Rightarrow> bool" where
  "is_space c \<longleftrightarrow>
     c \<in> set [9, 10, 11, 12, 13, 28, 29, 30, 31, 32, 133, 160, 5760,
              8192, 8193, 8194, 8195, 8196, 8197, 8198, 8199, 8200, 8201, 8202,
              8232, 8233, 8239, 8287, 12288]"

definition str_strip :: "ustring \<Rightarrow> ustring" where
  "str_strip s = rev (dropWhile is_space (rev (dropWhile is_space s)))"

definition startswith :: "ustring \<Rightarrow> ustring \<Rightarrow> bool" where
  "startswith s p = prefix p s"

definition endswith :: "ustring \<Rightarrow> ustring \<Rightarrow> bool" where
  "endswith s p = suffix p s"

fun str_join :: "ustring \<Rightarrow> ustring list \<Rightarrow> ustring" where
  "str_join sep [] = []"
| "str_join sep [x] = x"
| "str_join sep (x # y # ys) = x @ sep @ str_join sep (y # ys)"


section \<open>Exceptions and user-interface effects\<close>

text \<open>
  The exceptions (subclasses of \<^verbatim>\<open>Exception\<close>) that the handlers tell apart. Each
  carries its \<^verbatim>\<open>str()\<close> text. \<^verbatim>\<open>google.api_core.exceptions.GoogleAPIError\<close> is the
  base class of the client library's errors; the handler reads the attributes
  \<^verbatim>\<open>message\<close> and \<^verbatim>\<open>code\<close> of the instance it caught. The base class declares
  neither; \<^verbatim>\<open>GoogleAPICallError\<close> has both, \<^verbatim>\<open>RetryError\<close> has \<^verbatim>\<open>message\<close> only. So
  a GoogleAPIError carries the name of its class, its \<^verbatim>\<open>str()\<close> text, and each of the
  two attributes as an option holding the text that formatting it gives.
\<close>

datatype exn =
    JSONDecodeError ustring
  | GoogleAPIError ustring ustring "ustring option" "ustring option"
  | AttributeError ustring
  | OtherException ustring

fun str_exn :: "exn \<Rightarrow> ustring" where
  "str_exn (JSONDecodeError s) = s"
| "str_exn (GoogleAPIError cls s m c) = s"
| "str_exn (AttributeError s) = s"
| "str_exn (OtherException s) = s"

text \<open>
  The text of the AttributeError raised by reading an attribute that an object of
  class \<open>cls\<close> lacks: the class name and the attribute name, each between apostrophes.
\<close>

definition no_attribute :: "ustring \<Rightarrow> ustring \<Rightarrow> ustring" where
  "no_attribute cls name =
     39 # cls @ 39 # ustr '' object has no attribute '' @ 39 # name @ [39]"

text \<open>
  What an operation does besides returning: the messages it shows with
  \<^verbatim>\<open>st.error\<close> and \<^verbatim>\<open>st.warning\<close>, and the calls of
  \<^verbatim>\<open>client.generate_content(prompt)\<close> it issues, in order. An operation yields this
  trace and either its return value or the exception that leaves it.
\<close>

datatype ui_event =
    StError ustring
  | StWarning ustring
  | GenerateContent ustring

type_synonym 'a outcome = "ui_event list \<times> (exn + 'a)"


section \<open>Text extraction\<close>

text \<open>
  \<^verbatim>\<open>fitz.open(stream=pdf_bytes, filetype="pdf")\<close> is a parameter: it raises or gives
  a document. Iterating the document yields its pages in order; a page stands for
  what loading it and calling \<^verbatim>\<open>get_text()\<close> gives, a text or an exception;
  \<open>close\<close> is what \<^verbatim>\<open>doc.close()\<close> raises, if anything.
\<close>

type_synonym page = "exn + ustring"

record document =
  pages :: "page list"
  close :: "exn option"

fun read_pages :: "ustring \<Rightarrow> page list \<Rightarrow> exn + ustring" where
  "read_pages text [] = Inr text"
| "read_pages text (p # ps) =
     (case p of Inl e \<Rightarrow> Inl e | Inr t \<Rightarrow> read_pages (text @ t) ps)"

definition extract_text_try :: "('b \<Rightarrow> exn + document) \<Rightarrow> 'b \<Rightarrow> exn + ustring" where
  "extract_text_try fitz_open pdf_bytes =
     (case fitz_open pdf_bytes of
        Inl e \<Rightarrow> Inl e
      | Inr doc \<Rightarrow>
          (case read_pages [] (pages doc) of
             Inl e \<Rightarrow> Inl e
           | Inr text \<Rightarrow> (case close doc of Some e \<Rightarrow> Inl e | None \<Rightarrow> Inr text)))"

definition extract_text_from_pdf_bytes ::
  "('b \<Rightarrow> exn + document) \<Rightarrow> 'b \<Rightarrow> ustring option outcome" where
  "extract_text_from_pdf_bytes fitz_open pdf_bytes =
     (case extract_text_try fitz_open pdf_bytes of
        Inl e \<Rightarrow> ([StError (ustr ''Error extracting text from PDF: '' @ str_exn e)], Inr None)
      | Inr text \<Rightarrow> ([], Inr (Some text)))"

text \<open>A document of two pages, and one whose second page cannot be read.\<close>

definition fitz_two_pages :: "nat list \<Rightarrow> exn + document" where
  "fitz_two_pages b = Inr \<lparr>pages = [Inr (ustr ''ab''), Inr (ustr ''c'')], close = None\<rparr>"

definition fitz_broken_page :: "nat list \<Rightarrow> exn + document" where
  "fitz_broken_page b =
     Inr \<lparr>pages = [Inr (ustr ''ab''), Inl (OtherException (ustr ''bad page''))], close = None\<rparr>"


section \<open>Decoded JSON and the generation service's response\<close>

text \<open>
  What \<^verbatim>\<open>json.loads\<close> returns: None, a bool, an int, a float (kept as its literal), a
  str, a list, or a dict, given by its items in insertion order. The decoder itself
  is a parameter \<open>loads\<close> of the operations: it gives a value or raises.
\<close>

datatype json =
    JNull
  | JBool bool
  | JInt int
  | JFloat ustring
  | JStr ustring
  | JArr "json list"
  | JObj "(ustring \<times> json) list"

type_synonym py_dict = "(ustring \<times> json) list"

definition dict_get :: "py_dict \<Rightarrow> ustring \<Rightarrow> json \<Rightarrow> json" where
  "dict_get d k dflt = (case map_of d k of Some v \<Rightarrow> v | None \<Rightarrow> dflt)"

fun type_name :: "json \<Rightarrow> ustring" where
  "type_name JNull = ustr ''NoneType''"
| "type_name (JBool b) = ustr ''bool''"
| "type_name (JInt i) = ustr ''int''"
| "type_name (JFloat f) = ustr ''float''"
| "type_name (JStr s) = ustr ''str''"
| "type_name (JArr xs) = ustr ''list''"
| "type_name (JObj kvs) = ustr ''dict''"

text \<open>
  The response object, as far as the operations read it. An enum value (block
  reason, finish reason) has its number, its \<^verbatim>\<open>str()\<close> and its text in an f-string.
  An optional field is None when the attribute is absent or falsy; a part may have no
  \<^verbatim>\<open>text\<close> attribute.
\<close>

record enum_val =
  ev_int :: int
  ev_str :: ustring
  ev_fmt :: ustring

record rating =
  category :: ustring
  probability :: ustring

record prompt_feedback =
  block_reason :: enum_val
  pf_safety_ratings :: "rating list"

record part =
  part_text :: "ustring option"

record content =
  parts :: "part list"

record candidate =
  finish_reason :: enum_val
  safety_ratings :: "rating list"
  content :: "content option"

record response =
  prompt_feedback :: "prompt_feedback option"
  candidates :: "candidate list"

text \<open>
  The generator object: \<open>client\<close> is \<^verbatim>\<open>self.client.generate_content\<close>, which returns a
  response or raises.
\<close>

record generator =
  client :: "(ustring \<Rightarrow> exn + response) option"
  is_configured :: bool


section \<open>The question generator\<close>

definition return_error_structure ::
  "ustring \<Rightarrow> ustring option \<Rightarrow> ui_event list \<times> py_dict" where
  "return_error_structure error_message_for_ui error_message_for_dict =
     (let final_error_msg =
            (case error_message_for_dict of
               Some m \<Rightarrow> if m \<noteq> [] then m else error_message_for_ui
             | None \<Rightarrow> error_message_for_ui)
      in ([StError error_message_for_ui],
          [(ustr ''technical'', JArr [JStr (ustr ''Error: '' @ final_error_msg)]),
           (ustr ''behavioral'', JArr []),
           (ustr ''project_specific'', JArr []),
           (ustr ''scenario_based'', JArr [])]))"

definition returned :: "ui_event list \<times> 'a \<Rightarrow> 'a outcome" where
  "returned r = (fst r, Inr (snd r))"

definition job_description_open :: ustring where
  \<open>job_description_open = ustr
    (''\<newline>'' @
     ''        **Job Description:**\<newline>'' @
     ''        ---\<newline>'' @
     ''        '')\<close>

definition job_description_close :: ustring where
  \<open>job_description_close = ustr
    (''\<newline>'' @
     ''        ---'')\<close>

definition prompt_head :: ustring where
  \<open>prompt_head = ustr
    (''\<newline>'' @
     ''        You are an expert technical interviewer and career coach. Your task is to generate insightful interview questions based on the provided resume and job description. Aim for a comprehensive set of at least 25 questions, tailored to help a candidate prepare for internship interviews.\<newline>'' @
     ''\<newline>'' @
     ''        **Input Materials:**\<newline>'' @
     ''        ---\<newline>'' @
     ''        **Resume Content:**\<newline>'' @
     ''        '')\<close>

definition prompt_mid :: ustring where
  \<open>prompt_mid = ustr
    (''\<newline>'' @
     ''        ---\<newline>'' @
     ''        '')\<close>

definition prompt_tail :: ustring where
  \<open>prompt_tail = ustr
    (''\<newline>'' @
     ''        ---\<newline>'' @
     ''\<newline>'' @
     ''        **Question Generation Guidelines:**\<newline>'' @
     ''        1.  **Relevance:** Prioritize questions that directly relate to skills, technologies, and experiences mentioned in BOTH the resume and the job description. If no JD, focus on resume.\<newline>'' @
     ''        2.  **Depth & Breadth:** Cover a range of topics from fundamental concepts to practical application.\<newline>'' @
     ''        3.  **Realism:** Formulate questions similar to those asked in actual internship interviews for tech roles.\<newline>'' @
     ''        4.  **Progression:** Include questions suitable for different interview stages (screening, technical deep-dive).\<newline>'' @
     ''        5.  **Clarity:** Ensure questions are unambiguous.\<newline>'' @
     ''\<newline>'' @
     ''        **Question Categories (ensure a good distribution, aiming for 25+ total):**\<newline>'' @
     ''\<newline>'' @
     ''        1.  **Technical Deep Dive (8-10 questions):**\<newline>'' @
     ''            *   Based on specific programming languages, frameworks, and tools listed (e.g., Python, React, Docker, Git).\<newline>'' @
     ''            *   Data structures and algorithms (e.g., "Explain how you would use a hash map to optimize [specific scenario from resume/JD]?").\<newline>'' @
     ''            *   Database concepts (SQL/NoSQL, querying, design if mentioned).\<newline>'' @
     ''            *   System design fundamentals (scaled appropriately for an intern, e.g., "How would you design a simple URL shortener, focusing on the API and data storage?").\<newline>'' @
     ''            *   Debugging and troubleshooting approaches.\<newline>'' @
     ''\<newline>'' @
     ''        2.  **Project-Specific (6-8 questions):**\<newline>'' @
     ''            *   Probe into specific projects listed on the resume.\<newline>'' @
     ''            *   "On project X, you mentioned using Y technology. Can you walk me through a specific challenge you faced and how you overcame it?"\<newline>'' @
     ''            *   "What was your specific contribution to project Z? How did you collaborate with others?"\<newline>'' @
     ''            *   "If you could redo project A, what would you do differently and why?"\<newline>'' @
     ''            *   "How did you test your work on project B?"\<newline>'' @
     ''\<newline>'' @
     ''        3.  **Behavioral & Situational (6-8 questions):** (Use STAR method for answering these)\<newline>'' @
     ''            *   "Describe a time you had to learn a new technology quickly for a project."\<newline>'' @
     ''            *   "Tell me about a challenging team project and how you handled disagreements."\<newline>'' @
     ''            *   "How do you approach a task when the requirements are unclear?"\<newline>'' @
     ''            *   "Describe a mistake you made and what you learned from it."\<newline>'' @
     ''            *   (If JD is present) "This role requires [skill from JD, e.g., 'strong problem-solving skills']. Can you give an example of how you've demonstrated this?"\<newline>'' @
     ''\<newline>'' @
     ''        4.  **Scenario-Based/Problem-Solving (4-6 questions):**\<newline>'' @
     ''            *   "Imagine you're given a task to build [a small feature related to JD or resume skills]. What would be your initial steps and thought process?"\<newline>'' @
     ''            *   "How would you debug a situation where [common problem, e.g., 'a web application is running slower than expected']?"\<newline>'' @
     ''            *   "You've pushed code that inadvertently broke a feature in production for a personal project. What steps would you take immediately?"\<newline>'' @
     ''\<newline>'' @
     ''        **Output Format:**\<newline>'' @
     ''        Return a single, valid JSON object with the following structure. Do NOT include any text before or after the JSON object (e.g. no "```json" or "```").\<newline>'' @
     ''\<newline>'' @
     ''        {\<newline>'' @
     ''            "technical": ["Question 1 about tech...", "Question 2 about tech..."],\<newline>'' @
     ''            "behavioral": ["Question 1 about behavior...", "Question 2 about behavior..."],\<newline>'' @
     ''            "project_specific": ["Question 1 about project...", "Question 2 about project..."],\<newline>'' @
     ''            "scenario_based": ["Scenario question 1...", "Scenario question 2..."]\<newline>'' @
     ''        }\<newline>'' @
     ''        '')\<close>

definition job_description_section :: "ustring option \<Rightarrow> ustring" where
  "job_description_section job_description_text =
     (case job_description_text of
        None \<Rightarrow> ustr ''No job description provided.''
      | Some jd \<Rightarrow>
          if jd \<noteq> [] \<and> str_strip jd \<noteq> []
          then job_description_open @ jd @ job_description_close
          else ustr ''No job description provided.'')"

definition build_prompt :: "ustring \<Rightarrow> ustring option \<Rightarrow> ustring" where
  "build_prompt resume_text_content job_description_text =
     prompt_head @ resume_text_content @ prompt_mid @
     job_description_section job_description_text @ prompt_tail"

definition ratings_text :: "rating list \<Rightarrow> ustring" where
  "ratings_text rs =
     str_join (ustr ''\<newline>'')
       (map (\<lambda>r. ustr ''  - '' @ category r @ ustr '': '' @ probability r) rs)"

definition blocked_feedback :: "response \<Rightarrow> prompt_feedback option" where
  "blocked_feedback response =
     (case prompt_feedback response of
        None \<Rightarrow> None
      | Some pf \<Rightarrow> if ev_int (block_reason pf) \<noteq> 0 then Some pf else None)"

definition reason_map :: "(int \<times> ustring) list" where
  "reason_map =
     [(0, ustr ''UNSPECIFIED''), (1, ustr ''STOP''), (2, ustr ''MAX_TOKENS''),
      (3, ustr ''SAFETY''), (4, ustr ''RECITATION''), (5, ustr ''OTHER'')]"

definition reason_str :: "enum_val \<Rightarrow> ustring" where
  "reason_str reason_val =
     (case map_of reason_map (ev_int reason_val) of
        Some s \<Rightarrow> s
      | None \<Rightarrow> ustr ''UNKNOWN ('' @ ev_fmt reason_val @ ustr '')'')"

definition part_has_text :: "part \<Rightarrow> bool" where
  "part_has_text p = (case part_text p of Some t \<Rightarrow> t \<noteq> [] | None \<Rightarrow> False)"

definition has_usable_content :: "candidate \<Rightarrow> bool" where
  "has_usable_content candidate =
     (case content candidate of
        None \<Rightarrow> False
      | Some ct \<Rightarrow> parts ct \<noteq> [] \<and> list_ex part_has_text (parts ct))"

definition join_parts :: "part list \<Rightarrow> ustring" where
  "join_parts ps =
     concat (List.map_filter (\<lambda>p. if part_has_text p then part_text p else None) ps)"

definition generated_text_of :: "candidate \<Rightarrow> ustring" where
  "generated_text_of candidate =
     (case content candidate of
        None \<Rightarrow> []
      | Some ct \<Rightarrow> if parts ct \<noteq> [] then join_parts (parts ct) else [])"

text \<open>
  The check of the finish reason: \<open>Inl\<close> is the error structure returned at once,
  \<open>Inr\<close> the warning shown (none after a normal stop) before going on.
\<close>

definition check_finish_reason :: "candidate \<Rightarrow> (ui_event list \<times> py_dict) + ui_event list" where
  "check_finish_reason candidate =
     (if ev_int (finish_reason candidate) \<noteq> 1 then
        (let reason_s = reason_str (finish_reason candidate);
             rated = (safety_ratings candidate \<noteq> []);
             error_detail_ui =
               ustr ''Gemini API request finished atypically. Reason: '' @ reason_s @ ustr ''.'' @
               (if rated
                then ustr ''\<newline>Safety Ratings:\<newline>'' @ ratings_text (safety_ratings candidate)
                else []);
             error_detail_dict =
               ustr ''API request finished: '' @ reason_s @ ustr ''.'' @
               (if rated then ustr '' Check safety ratings.'' else [])
         in if has_usable_content candidate
            then Inr [StWarning (error_detail_ui @ ustr ''\<newline>Attempting to use partial content.'')]
            else Inl (return_error_structure error_detail_ui (Some error_detail_dict)))
      else Inr [])"

definition clean_generated_text :: "ustring \<Rightarrow> ustring" where
  "clean_generated_text generated_text =
     (let t1 = str_strip generated_text;
          t2 = (if startswith t1 (ustr ''```json'') then drop 7 t1 else t1)
      in if endswith t2 (ustr ''```'') then take (length t2 - 3) t2 else t2)"

text \<open>
  The returned dict. \<^verbatim>\<open>questions.get\<close> exists on a dict only: on any other decoded
  value the attribute lookup raises AttributeError.
\<close>

definition question_dict :: "json \<Rightarrow> exn + py_dict" where
  "question_dict questions =
     (case questions of
        JObj kvs \<Rightarrow>
          Inr [(ustr ''technical'', dict_get kvs (ustr ''technical'') (JArr [])),
               (ustr ''behavioral'', dict_get kvs (ustr ''behavioral'') (JArr [])),
               (ustr ''project_specific'', dict_get kvs (ustr ''project_specific'') (JArr [])),
               (ustr ''scenario_based'', dict_get kvs (ustr ''scenario_based'') (JArr []))]
      | _ \<Rightarrow>
          Inl (AttributeError (no_attribute (type_name questions) (ustr ''get''))))"

text \<open>The body of the \<^verbatim>\<open>try\<close> block after the call has returned a response.\<close>

definition questions_from_response ::
  "(ustring \<Rightarrow> exn + json) \<Rightarrow> response \<Rightarrow> py_dict outcome" where
  "questions_from_response loads response =
     (case blocked_feedback response of
        Some pf \<Rightarrow>
          (let reason = ev_str (block_reason pf);
               ratings = ratings_text (pf_safety_ratings pf)
           in returned (return_error_structure
                (ustr ''Gemini API blocked the prompt. Reason: '' @ reason @
                 ustr ''.\<newline>Safety Ratings:\<newline>'' @ ratings)
                (Some (ustr ''Prompt blocked by safety settings (Reason: '' @ reason @ ustr '').''))))
      | None \<Rightarrow>
          (case candidates response of
             [] \<Rightarrow>
               returned (return_error_structure
                 (ustr ''Gemini API returned no candidates in the response.'')
                 (Some (ustr ''No candidates in API response.'')))
           | candidate # _ \<Rightarrow>
               (case check_finish_reason candidate of
                  Inl err \<Rightarrow> returned err
                | Inr warned \<Rightarrow>
                    (let generated_text = generated_text_of candidate
                     in if str_strip generated_text = [] then
                          (let err = return_error_structure
                             (ustr ''Gemini API returned empty text content, possibly due to safety filters or an issue with the prompt response.'')
                             (Some (ustr ''Empty text content from API.''))
                           in (warned @ fst err, Inr (snd err)))
                        else
                          (case loads (clean_generated_text generated_text) of
                             Inl e \<Rightarrow> (warned, Inl e)
                           | Inr questions \<Rightarrow> (warned, question_dict questions))))))"

text \<open>
  The \<^verbatim>\<open>except\<close> clauses, in their order. In the second one the f-string reads
  \<^verbatim>\<open>ge.message\<close> and then \<^verbatim>\<open>ge.code\<close>; reading an attribute the instance lacks raises
  AttributeError inside the handler, which no clause of this \<^verbatim>\<open>try\<close> catches.
\<close>

definition questions_except :: "exn \<Rightarrow> exn + (ui_event list \<times> py_dict)" where
  "questions_except e =
     (case e of
        JSONDecodeError je \<Rightarrow>
          Inr (return_error_structure
                (ustr ''Error decoding JSON from AI response: '' @ je @
                 ustr ''. Check the raw response below.'')
                (Some (ustr ''Malformed JSON from API: '' @ je)))
      | GoogleAPIError cls s message code \<Rightarrow>
          (case message of
             None \<Rightarrow> Inl (AttributeError (no_attribute cls (ustr ''message'')))
           | Some m \<Rightarrow>
               (case code of
                  None \<Rightarrow> Inl (AttributeError (no_attribute cls (ustr ''code'')))
                | Some c \<Rightarrow>
                    Inr (return_error_structure
                          (ustr ''Gemini API Error: '' @ m @ ustr '' (Code: '' @ c @ ustr '')'')
                          (Some (ustr ''Gemini API Error: '' @ m)))))
      | _ \<Rightarrow>
          Inr (return_error_structure
                (ustr ''An unexpected error occurred during question generation: '' @ str_exn e)
                (Some (ustr ''Unexpected error: '' @ str_exn e))))"

definition generate_questions_from_text ::
  "(ustring \<Rightarrow> exn + json) \<Rightarrow> generator \<Rightarrow> ustring \<Rightarrow> ustring option \<Rightarrow> py_dict outcome" where
  "generate_questions_from_text loads self resume_text_content job_description_text =
     (case (if is_configured self then client self else None) of
        None \<Rightarrow>
          returned (return_error_structure
            (ustr ''Gemini client not configured. Please check API key.'')
            (Some (ustr ''Gemini client not configured.'')))
      | Some generate_content \<Rightarrow>
          (let prompt = build_prompt resume_text_content job_description_text;
               body = (case generate_content prompt of
                         Inl e \<Rightarrow> ([], Inl e)
                       | Inr response \<Rightarrow> questions_from_response loads response)
           in case snd body of
                Inr d \<Rightarrow> (GenerateContent prompt # fst body, Inr d)
              | Inl e \<Rightarrow>
                  (case questions_except e of
                     Inl e' \<Rightarrow> (GenerateContent prompt # fst body, Inl e')
                   | Inr err \<Rightarrow> (GenerateContent prompt # fst body @ fst err, Inr (snd err)))))"


section \<open>The answer generator\<close>

definition answer_prompt_head :: ustring where
  \<open>answer_prompt_head = ustr
    (''\<newline>'' @
     ''        You are an expert interviewer, career coach, and industry professional.\<newline>'' @
     ''        A candidate has been asked the following interview question:\<newline>'' @
     ''        ---\<newline>'' @
     ''        Question: "'')\<close>

definition answer_prompt_tail :: ustring where
  \<open>answer_prompt_tail = ustr
    (''"\<newline>'' @
     ''        ---\<newline>'' @
     ''        Provide a model answer. (Instructions from previous prompt are still relevant)\<newline>'' @
     ''        '')\<close>

definition answer_from_response :: "response \<Rightarrow> ustring" where
  "answer_from_response response =
     (case blocked_feedback response of
        Some pf \<Rightarrow> ustr ''Answer generation blocked by Gemini. Reason: '' @ ev_fmt (block_reason pf)
      | None \<Rightarrow>
          (case candidates response of
             [] \<Rightarrow> ustr ''Gemini returned no candidates for the answer.''
           | candidate # _ \<Rightarrow>
               if ev_int (finish_reason candidate) \<noteq> 1
               then ustr ''Answer generation finished atypically. Reason: '' @
                    ev_fmt (finish_reason candidate)
               else
                 (case content candidate of
                    None \<Rightarrow> ustr ''No text content found in Gemini response for the answer.''
                  | Some ct \<Rightarrow>
                      if parts ct \<noteq> [] then str_strip (join_parts (parts ct))
                      else ustr ''No text content found in Gemini response for the answer.'')))"

definition generate_answer_for_question :: "generator \<Rightarrow> ustring \<Rightarrow> ustring outcome" where
  "generate_answer_for_question self question_text =
     (case (if is_configured self then client self else None) of
        None \<Rightarrow> ([], Inr (ustr ''Gemini client not configured. Cannot generate answer.''))
      | Some generate_content \<Rightarrow>
          if question_text = [] then ([], Inr (ustr ''No question provided to generate an answer.''))
          else
            (let prompt = answer_prompt_head @ question_text @ answer_prompt_tail
             in case generate_content prompt of
                  Inr response \<Rightarrow> ([GenerateContent prompt], Inr (answer_from_response response))
                | Inl e \<Rightarrow>
                    ([GenerateContent prompt,
                      StError (ustr ''Error generating answer with Gemini: '' @ str_exn e)],
                     Inr (ustr ''Error generating answer: '' @ str_exn e))))"


section \<open>The generate button\<close>

text \<open>
  The branch of the script that runs when the button is clicked, up to the stored
  result of the generator call: the generator of the session (absent before a key is
  given), the text extracted from the upload (None when extraction failed) and the
  job-description field. What follows in the script only inspects the result to show
  a success message.
\<close>

definition generate_button_clicked ::
  "(ustring \<Rightarrow> exn + json) \<Rightarrow> generator option \<Rightarrow> ustring option \<Rightarrow> ustring \<Rightarrow>
     py_dict option outcome" where
  "generate_button_clicked loads ai_question_gen resume_text job_description =
     (case (case ai_question_gen of
              None \<Rightarrow> None
            | Some g \<Rightarrow> if is_configured g then Some g else None) of
        None \<Rightarrow>
          ([StError (ustr ''Gemini AI Generator is not configured. Please check your API key in the sidebar.'')],
           Inr None)
      | Some g \<Rightarrow>
          (case (case resume_text of None \<Rightarrow> None | Some t \<Rightarrow> if t \<noteq> [] then Some t else None) of
             Some t \<Rightarrow>
               (let r = generate_questions_from_text loads g t (Some job_description)
                in (fst r, map_sum id Some (snd r)))
           | None \<Rightarrow> ([StWarning (ustr ''Please upload a resume first.'')], Inr None)))"


section \<open>Shapes of results and classes of failure\<close>

text \<open>
  The shape of a failed question set: \<open>technical\<close> holds exactly one string that
  starts with the marker, the three other keys hold empty lists, and there is no
  other key.
\<close>

definition question_keys :: "ustring list" where
  "question_keys =
     [ustr ''technical'', ustr ''behavioral'', ustr ''project_specific'', ustr ''scenario_based'']"

definition error_entry :: "json \<Rightarrow> bool" where
  "error_entry v =
     (case v of
        JArr [JStr s] \<Rightarrow> startswith s (ustr ''Error: '')
      | _ \<Rightarrow> False)"

definition is_error_structure :: "py_dict \<Rightarrow> bool" where
  "is_error_structure d \<longleftrightarrow>
     set (map fst d) = set question_keys \<and>
     error_entry (dict_get d (ustr ''technical'') JNull) \<and>
     dict_get d (ustr ''behavioral'') JNull = JArr [] \<and>
     dict_get d (ustr ''project_specific'') JNull = JArr [] \<and>
     dict_get d (ustr ''scenario_based'') JNull = JArr []"

text \<open>
  Every exception is caught by one of the \<^verbatim>\<open>except\<close> clauses of the question
  generator. \<open>attributes_present\<close> says of an exception that it has the attributes its
  clause reads: a GoogleAPIError has both \<^verbatim>\<open>message\<close> and \<^verbatim>\<open>code\<close>; the other
  clauses read none.
\<close>

definition attributes_present :: "exn \<Rightarrow> bool" where
  "attributes_present e =
     (case e of
        GoogleAPIError cls s message code \<Rightarrow> message \<noteq> None \<and> code \<noteq> None
      | _ \<Rightarrow> True)"

text \<open>
  The classes of failure of the question generator, on a response: the prompt was
  blocked; there is no candidate; the first candidate ended atypically without usable
  content; its text is empty after trimming; decoding the cleaned text raised; or the
  decoded value is not an object, so that reading its keys raises. \<open>handled_failure\<close>
  adds the generator that is not configured and the call that raises, and keeps of
  the raised exceptions those that have the attributes their clause reads.
\<close>

definition atypical_without_content :: "candidate \<Rightarrow> bool" where
  "atypical_without_content c \<longleftrightarrow> ev_int (finish_reason c) \<noteq> 1 \<and> \<not> has_usable_content c"

definition empty_text :: "candidate \<Rightarrow> bool" where
  "empty_text c \<longleftrightarrow> list_all is_space (generated_text_of c)"

definition undecodable :: "(ustring \<Rightarrow> exn + json) \<Rightarrow> candidate \<Rightarrow> bool" where
  "undecodable loads c =
     (case loads (clean_generated_text (generated_text_of c)) of
        Inl e \<Rightarrow> attributes_present e
      | Inr (JObj kvs) \<Rightarrow> False
      | Inr _ \<Rightarrow> True)"

definition failed_response :: "(ustring \<Rightarrow> exn + json) \<Rightarrow> response \<Rightarrow> bool" where
  "failed_response loads response =
     (case blocked_feedback response of
        Some pf \<Rightarrow> True
      | None \<Rightarrow>
          (case candidates response of
             [] \<Rightarrow> True
           | c # _ \<Rightarrow> atypical_without_content c \<or> empty_text c \<or> undecodable loads c))"

definition handled_failure ::
  "(ustring \<Rightarrow> exn + json) \<Rightarrow> generator \<Rightarrow> ustring \<Rightarrow> ustring option \<Rightarrow> bool" where
  "handled_failure loads self resume_text_content job_description_text =
     (case client self of
        None \<Rightarrow> True
      | Some generate_content \<Rightarrow>
          \<not> is_configured self \<or>
          (case generate_content (build_prompt resume_text_content job_description_text) of
             Inl e \<Rightarrow> attributes_present e
           | Inr response \<Rightarrow> failed_response loads response))"


text \<open>
  What the property of code-fence stripping needs of \<^verbatim>\<open>json.loads\<close>: a text that it
  accepts is a JSON value with nothing but blanks around it. So the text is not blank,
  the trimmed text is accepted with the same value, and the trimmed text starts and
  ends with a character of the value, which is never a backtick.
\<close>

definition json_like :: "(ustring \<Rightarrow> exn + json) \<Rightarrow> bool" where
  "json_like loads \<longleftrightarrow>
     (\<forall>s v. loads s = Inr v \<longrightarrow>
        \<not> list_all is_space s \<and> loads (str_strip s) = Inr v \<and>
        \<not> startswith (str_strip s) (ustr ''```json'') \<and>
        \<not> endswith (str_strip s) (ustr ''```''))"

section \<open>Sample responses\<close>

text \<open>
  The decoder at the texts used in the examples below. There \<^verbatim>\<open>json.loads\<close> gives
  these values (it skips the line breaks around a value), and it raises the error of
  the last line for the empty text and for prose that starts with a letter. The
  examples apply it to no other text.
\<close>

definition sample_payload :: ustring where
  \<open>sample_payload =
     ustr ''{"technical":["Q1"],"behavioral":[],"project_specific":[],"scenario_based":[]}''\<close>

definition sample_object :: json where
  "sample_object =
     JObj [(ustr ''technical'', JArr [JStr (ustr ''Q1'')]), (ustr ''behavioral'', JArr []),
           (ustr ''project_specific'', JArr []), (ustr ''scenario_based'', JArr [])]"

definition partial_payload :: ustring where
  \<open>partial_payload = ustr ''{"technical":["Q1"],"notes":"n"}''\<close>

definition partial_object :: json where
  "partial_object =
     JObj [(ustr ''technical'', JArr [JStr (ustr ''Q1'')]), (ustr ''notes'', JStr (ustr ''n''))]"

definition loads_sample :: "ustring \<Rightarrow> exn + json" where
  "loads_sample s =
     (if s = sample_payload \<or> s = 10 # sample_payload @ [10] then Inr sample_object
      else if s = partial_payload then Inr partial_object
      else Inl (JSONDecodeError (ustr ''Expecting value: line 1 column 1 (char 0)'')))"

text \<open>
  A response with one candidate carrying one text part: ended by a normal stop, or
  cut at the token limit. A generator whose call always has the given outcome.
\<close>

definition text_candidate :: "enum_val \<Rightarrow> ustring \<Rightarrow> candidate" where
  "text_candidate reason t =
     \<lparr>finish_reason = reason, safety_ratings = [],
      content = Some \<lparr>parts = [\<lparr>part_text = Some t\<rparr>]\<rparr>\<rparr>"

definition stop_response :: "ustring \<Rightarrow> response" where
  "stop_response t =
     \<lparr>prompt_feedback = None,
      candidates =
        [text_candidate \<lparr>ev_int = 1, ev_str = ustr ''FinishReason.STOP'', ev_fmt = ustr ''1''\<rparr> t]\<rparr>"

definition cut_response :: "ustring \<Rightarrow> response" where
  "cut_response t =
     \<lparr>prompt_feedback = None,
      candidates =
        [text_candidate
           \<lparr>ev_int = 2, ev_str = ustr ''FinishReason.MAX_TOKENS'', ev_fmt = ustr ''2''\<rparr> t]\<rparr>"

definition sample_generator :: "exn + response \<Rightarrow> generator" where
  "sample_generator r = \<lparr>client = Some (\<lambda>prompt. r), is_configured = True\<rparr>"

text \<open>
  Two responses ended by a normal stop: one whose content has parts without any text,
  and one without content.
\<close>

definition blank_parts_response :: response where
  "blank_parts_response =
     \<lparr>prompt_feedback = None,
      candidates =
        [\<lparr>finish_reason = \<lparr>ev_int = 1, ev_str = ustr ''FinishReason.STOP'', ev_fmt = ustr ''1''\<rparr>,
          safety_ratings = [],
          content = Some \<lparr>parts = [\<lparr>part_text = Some []\<rparr>, \<lparr>part_text = None\<rparr>]\<rparr>\<rparr>]\<rparr>"

definition no_content_response :: response where
  "no_content_response =
     \<lparr>prompt_feedback = None,
      candidates =
        [\<lparr>finish_reason = \<lparr>ev_int = 1, ev_str = ustr ''FinishReason.STOP'', ev_fmt = ustr ''1''\<rparr>,
          safety_ratings = [], content = None\<rparr>]\<rparr>"

text \<open>
  The fault raised when the client library gives up retrying: a GoogleAPIError with
  a \<^verbatim>\<open>message\<close> and no \<^verbatim>\<open>code\<close>.
\<close>

definition retry_error :: exn where
  "retry_error =
     GoogleAPIError (ustr ''RetryError'')
       (ustr ''Timeout of 600.0s exceeded, last exception: 503 Service Unavailable'')
       (Some (ustr ''Timeout of 600.0s exceeded'')) None"


section \<open>Properties of text extraction\<close>

lemma read_pages_texts: "read_pages acc (map Inr texts) = Inr (acc @ concat texts)"
  by (induction texts arbitrary: acc) simp_all

lemma read_pages_fault: "Inl e \<in> set ps \<Longrightarrow> \<exists>e'. read_pages acc ps = Inl e'"
proof (induction ps arbitrary: acc)
  case Nil
  then show ?case by simp
next
  case (Cons p ps)
  show ?case
  proof (cases p)
    case (Inl e0)
    then show ?thesis by simp
  next
    case (Inr t)
    with Cons.prems have "Inl e \<in> set ps" by auto
    from Cons.IH [OF this] Inr show ?thesis by simp
  qed
qed

text \<open>
  C9. Whatever the bytes are: when the document opens, every page gives its text and
  closing succeeds, the result is the concatenation of the page texts in page order
  (the empty text for a document without text) and nothing is reported; when opening,
  a page or closing raises, one diagnostic is reported and the result is None, never
  the text read so far. In every case the function returns, either a text with no
  diagnostic or None with one.
\<close>

theorem extract_text_all_or_none:
  "(fitz_open b = Inr doc \<and> pages doc = map Inr texts \<and> close doc = None \<longrightarrow>
      extract_text_from_pdf_bytes fitz_open b = ([], Inr (Some (concat texts)))) \<and>
   ((\<exists>e. fitz_open b = Inl e) \<or>
    (fitz_open b = Inr doc \<and> ((\<exists>e. Inl e \<in> set (pages doc)) \<or> close doc \<noteq> None)) \<longrightarrow>
      (\<exists>msg. extract_text_from_pdf_bytes fitz_open b = ([StError msg], Inr None))) \<and>
   ((\<exists>text. extract_text_from_pdf_bytes fitz_open b = ([], Inr (Some text))) \<or>
    (\<exists>msg. extract_text_from_pdf_bytes fitz_open b = ([StError msg], Inr None)))"
proof (intro conjI impI)
  assume "fitz_open b = Inr doc \<and> pages doc = map Inr texts \<and> close doc = None"
  then show "extract_text_from_pdf_bytes fitz_open b = ([], Inr (Some (concat texts)))"
    by (simp add: extract_text_from_pdf_bytes_def extract_text_try_def read_pages_texts)
next
  assume "(\<exists>e. fitz_open b = Inl e) \<or>
    (fitz_open b = Inr doc \<and> ((\<exists>e. Inl e \<in> set (pages doc)) \<or> close doc \<noteq> None))"
  then consider (op) e where "fitz_open b = Inl e"
    | (pg) e where "fitz_open b = Inr doc" "Inl e \<in> set (pages doc)"
    | (cl) "fitz_open b = Inr doc" "close doc \<noteq> None"
    by blast
  then have "\<exists>e. extract_text_try fitz_open b = Inl e"
  proof cases
    case op
    then show ?thesis by (simp add: extract_text_try_def)
  next
    case pg
    from read_pages_fault [OF pg(2)] obtain e' where "read_pages [] (pages doc) = Inl e'"
      by blast
    with pg(1) show ?thesis by (simp add: extract_text_try_def)
  next
    case cl
    then show ?thesis
      by (auto simp: extract_text_try_def split: sum.splits option.splits)
  qed
  then show "\<exists>msg. extract_text_from_pdf_bytes fitz_open b = ([StError msg], Inr None)"
    by (auto simp: extract_text_from_pdf_bytes_def)
next
  show "(\<exists>text. extract_text_from_pdf_bytes fitz_open b = ([], Inr (Some text))) \<or>
    (\<exists>msg. extract_text_from_pdf_bytes fitz_open b = ([StError msg], Inr None))"
    by (cases "extract_text_try fitz_open b") (simp_all add: extract_text_from_pdf_bytes_def)
qed

theorem extract_text_all_or_none_witness:
  "extract_text_from_pdf_bytes fitz_two_pages [37, 80, 68, 70] = ([], Inr (Some (ustr ''abc''))) \<and>
   (\<exists>msg. extract_text_from_pdf_bytes fitz_broken_page [37, 80, 68, 70] = ([StError msg], Inr None))"
proof -
  have ok: "fitz_two_pages [37, 80, 68, 70] =
        Inr \<lparr>pages = [Inr (ustr ''ab''), Inr (ustr ''c'')], close = None\<rparr> \<and>
      pages \<lparr>pages = [Inr (ustr ''ab''), Inr (ustr ''c'')], close = None\<rparr> =
        map Inr [ustr ''ab'', ustr ''c''] \<and>
      close \<lparr>pages = [Inr (ustr ''ab''), Inr (ustr ''c'')], close = None\<rparr> = None"
    by (simp add: fitz_two_pages_def)
  have bad: "fitz_broken_page [37, 80, 68, 70] =
        Inr \<lparr>pages = [Inr (ustr ''ab''), Inl (OtherException (ustr ''bad page''))], close = None\<rparr> \<and>
      Inl (OtherException (ustr ''bad page'')) \<in>
        set (pages \<lparr>pages = [Inr (ustr ''ab''), Inl (OtherException (ustr ''bad page''))],
                    close = None\<rparr>)"
    by (simp add: fitz_broken_page_def)
  have cat: "concat [ustr ''ab'', ustr ''c''] = ustr ''abc''"
    by (simp add: ustr_def)
  from extract_text_all_or_none [of fitz_two_pages "[37, 80, 68, 70]"
      "\<lparr>pages = [Inr (ustr ''ab''), Inr (ustr ''c'')], close = None\<rparr>" "[ustr ''ab'', ustr ''c'']"] ok cat
  have first: "extract_text_from_pdf_bytes fitz_two_pages [37, 80, 68, 70] =
      ([], Inr (Some (ustr ''abc'')))"
    by simp
  from extract_text_all_or_none [of fitz_broken_page "[37, 80, 68, 70]"
      "\<lparr>pages = [Inr (ustr ''ab''), Inl (OtherException (ustr ''bad page''))], close = None\<rparr>"] bad
  have second: "\<exists>msg. extract_text_from_pdf_bytes fitz_broken_page [37, 80, 68, 70] =
      ([StError msg], Inr None)"
    by blast
  from first second show ?thesis by simp
qed


section \<open>Properties of the question generator\<close>

lemma str_strip_empty_iff: "str_strip s = [] \<longleftrightarrow> list_all is_space s"
proof
  assume "str_strip s = []"
  then have a: "\<forall>x\<in>set (dropWhile is_space s). is_space x"
    by (simp add: str_strip_def)
  have "dropWhile is_space s = []"
  proof (rule ccontr)
    assume n: "dropWhile is_space s \<noteq> []"
    then have "\<not> is_space (hd (dropWhile is_space s))" by (rule hd_dropWhile)
    moreover from n have "hd (dropWhile is_space s) \<in> set (dropWhile is_space s)" by simp
    ultimately show False using a by blast
  qed
  then show "list_all is_space s" by (simp add: list_all_iff)
next
  assume "list_all is_space s"
  then have d: "dropWhile is_space s = []" by (simp add: list_all_iff)
  show "str_strip s = []" unfolding str_strip_def d by simp
qed

lemma error_structure_shape: "is_error_structure (snd (return_error_structure ui d))"
  by (simp add: is_error_structure_def return_error_structure_def Let_def question_keys_def
      dict_get_def error_entry_def startswith_def ustr_def split: option.splits)

lemma error_structure_event: "fst (return_error_structure ui d) = [StError ui]"
  by (simp add: return_error_structure_def Let_def)

lemma join_parts_usable: "join_parts ps \<noteq> [] \<Longrightarrow> list_ex part_has_text ps"
  by (induction ps) (auto simp: join_parts_def split: if_splits)

lemma generated_text_usable: "generated_text_of c \<noteq> [] \<Longrightarrow> has_usable_content c"
  by (auto simp: generated_text_of_def has_usable_content_def join_parts_usable
      split: option.splits if_splits)

lemma check_finish_Inl:
  "check_finish_reason c = Inl err \<Longrightarrow>
     is_error_structure (snd err) \<and> (\<exists>m. fst err = [StError m]) \<and> atypical_without_content c"
  by (auto simp: check_finish_reason_def Let_def error_structure_shape error_structure_event
      atypical_without_content_def split: if_splits)

lemma check_finish_Inr:
  "check_finish_reason c = Inr w \<Longrightarrow>
     \<not> atypical_without_content c \<and> (w = [] \<or> (\<exists>m. w = [StWarning m]))"
  by (auto simp: check_finish_reason_def Let_def atypical_without_content_def split: if_splits)

lemma check_finish_usable:
  "has_usable_content c \<Longrightarrow> \<exists>w. check_finish_reason c = Inr w"
  by (simp add: check_finish_reason_def Let_def)

lemma except_converts:
  "attributes_present e \<Longrightarrow> \<exists>err. questions_except e = Inr err \<and> is_error_structure (snd err)"
proof -
  assume "attributes_present e"
  then have "\<exists>ui dm. questions_except e = Inr (return_error_structure ui dm)"
    by (cases e) (fastforce simp: attributes_present_def questions_except_def)+
  then show ?thesis
    using error_structure_shape by blast
qed

lemma question_dict_not_object:
  "(case q of JObj kvs \<Rightarrow> False | _ \<Rightarrow> True) \<Longrightarrow> \<exists>e. question_dict q = Inl e \<and> attributes_present e"
  by (cases q) (simp_all add: question_dict_def attributes_present_def)

lemma questions_from_response_failed:
  assumes "failed_response loads r"
  shows "(\<exists>evs d. questions_from_response loads r = (evs, Inr d) \<and> is_error_structure d) \<or>
         (\<exists>evs e. questions_from_response loads r = (evs, Inl e) \<and> attributes_present e)"
proof (cases "blocked_feedback r")
  case (Some pf)
  then show ?thesis
    by (simp add: questions_from_response_def Let_def returned_def error_structure_shape)
next
  case None
  show ?thesis
  proof (cases "candidates r")
    case Nil
    with None show ?thesis
      by (simp add: questions_from_response_def returned_def error_structure_shape)
  next
    case (Cons c cs)
    show ?thesis
    proof (cases "check_finish_reason c")
      case (Inl err)
      with None Cons check_finish_Inl [OF Inl] show ?thesis
        by (simp add: questions_from_response_def returned_def)
    next
      case (Inr w)
      show ?thesis
      proof (cases "str_strip (generated_text_of c) = []")
        case True
        with None Cons Inr show ?thesis
          by (simp add: questions_from_response_def Let_def error_structure_shape)
      next
        case False
        with assms None Cons check_finish_Inr [OF Inr]
        have u: "undecodable loads c"
          by (simp add: failed_response_def empty_text_def str_strip_empty_iff)
        show ?thesis
        proof (cases "loads (clean_generated_text (generated_text_of c))")
          case (Inl e)
          with u have "attributes_present e" by (simp add: undecodable_def)
          with None Cons Inr False Inl show ?thesis
            by (simp add: questions_from_response_def Let_def)
        next
          case (Inr q)
          with u have "case q of JObj kvs \<Rightarrow> False | _ \<Rightarrow> True"
            by (simp add: undecodable_def split: json.splits)
          from question_dict_not_object [OF this] obtain e
            where "question_dict q = Inl e" "attributes_present e" by blast
          with None Cons \<open>check_finish_reason c = Inr w\<close> False Inr show ?thesis
            by (simp add: questions_from_response_def Let_def)
        qed
      qed
    qed
  qed
qed

lemma generate_questions_configured:
  assumes "client self = Some gc" "is_configured self"
  shows "generate_questions_from_text loads self resume jd =
     (let prompt = build_prompt resume jd;
          body = (case gc prompt of
                    Inl e \<Rightarrow> ([], Inl e)
                  | Inr response \<Rightarrow> questions_from_response loads response)
      in case snd body of
           Inr d \<Rightarrow> (GenerateContent prompt # fst body, Inr d)
         | Inl e \<Rightarrow>
             (case questions_except e of
                Inl e' \<Rightarrow> (GenerateContent prompt # fst body, Inl e')
              | Inr err \<Rightarrow> (GenerateContent prompt # fst body @ fst err, Inr (snd err))))"
  using assms by (simp add: generate_questions_from_text_def)

lemma handled_failure_shape:
  assumes "handled_failure loads self resume jd"
  shows "\<exists>evs d. generate_questions_from_text loads self resume jd = (evs, Inr d) \<and>
           is_error_structure d"
proof (cases "if is_configured self then client self else None")
  case None
  then show ?thesis
    by (simp add: generate_questions_from_text_def returned_def error_structure_shape)
next
  case (Some gc)
  then have cfg: "client self = Some gc" "is_configured self"
    by (simp_all split: if_splits)
  note unf = generate_questions_configured [OF cfg]
  show ?thesis
  proof (cases "gc (build_prompt resume jd)")
    case (Inl e)
    with assms cfg have "attributes_present e" by (simp add: handled_failure_def)
    from except_converts [OF this] Inl show ?thesis
      by (auto simp: unf Let_def)
  next
    case (Inr r)
    with assms cfg have "failed_response loads r" by (simp add: handled_failure_def)
    from questions_from_response_failed [OF this] show ?thesis
    proof (elim disjE exE conjE)
      fix evs d
      assume "questions_from_response loads r = (evs, Inr d)" "is_error_structure d"
      with Inr show ?thesis by (simp add: unf Let_def)
    next
      fix evs e
      assume q: "questions_from_response loads r = (evs, Inl e)" and "attributes_present e"
      from except_converts [OF this(2)] q Inr show ?thesis
        by (auto simp: unf Let_def)
    qed
  qed
qed

lemmas sample_defs = sample_generator_def stop_response_def cut_response_def text_candidate_def
  loads_sample_def sample_payload_def partial_payload_def sample_object_def partial_object_def

lemmas text_defs = str_strip_def is_space_def startswith_def endswith_def ustr_def Let_def
  suffix_to_prefix

text \<open>
  C1. Every classified failure of \<open>generate_questions_from_text\<close> should return a
  question set whose \<open>behavioral\<close>, \<open>project_specific\<close> and \<open>scenario_based\<close> entries are
  empty lists and whose \<open>technical\<close> entry holds exactly one string starting with
  \<open>Error: \<close>. It does for every class of failure as long as a raised GoogleAPIError
  has both attributes (\<open>handled_failure_shape\<close>). A transport error without a
  \<^verbatim>\<open>code\<close> attribute is caught by its clause as well, but the call then returns no
  question set at all: the exception raised in the handler leaves it.
\<close>

theorem retry_error_yields_no_error_structure:
  "\<not> (case snd (generate_questions_from_text loads_sample (sample_generator (Inl retry_error))
               (ustr ''resume'') None) of
        Inl e \<Rightarrow> False
      | Inr d \<Rightarrow> is_error_structure d)"
  by (simp add: generate_questions_from_text_def sample_generator_def retry_error_def
      questions_except_def Let_def)

lemma generate_answer_configured:
  assumes "client self = Some gc" "is_configured self" "question_text \<noteq> []"
  shows "generate_answer_for_question self question_text =
     (case gc (answer_prompt_head @ question_text @ answer_prompt_tail) of
        Inr response \<Rightarrow>
          ([GenerateContent (answer_prompt_head @ question_text @ answer_prompt_tail)],
           Inr (answer_from_response response))
      | Inl e \<Rightarrow>
          ([GenerateContent (answer_prompt_head @ question_text @ answer_prompt_tail),
            StError (ustr ''Error generating answer with Gemini: '' @ str_exn e)],
           Inr (ustr ''Error generating answer: '' @ str_exn e)))"
  using assms by (simp add: generate_answer_for_question_def Let_def)

lemma generate_answer_returns:
  "\<exists>evs s. generate_answer_for_question self question_text = (evs, Inr s)"
  by (simp add: generate_answer_for_question_def Let_def split: option.splits sum.splits)

lemma questions_from_response_fault:
  assumes "\<And>s e. loads s = Inl e \<Longrightarrow> attributes_present e"
    and "snd (questions_from_response loads r) = Inl e"
  shows "attributes_present e"
  using assms
  by (auto simp: questions_from_response_def Let_def returned_def question_dict_def attributes_present_def
      split: option.splits list.splits sum.splits if_splits json.splits)

lemma generate_questions_returns:
  assumes "\<And>gc p e. client self = Some gc \<Longrightarrow> gc p = Inl e \<Longrightarrow> attributes_present e"
    and "\<And>s e. loads s = Inl e \<Longrightarrow> attributes_present e"
  shows "\<exists>evs d. generate_questions_from_text loads self resume jd = (evs, Inr d)"
proof (cases "if is_configured self then client self else None")
  case None
  then show ?thesis
    by (simp add: generate_questions_from_text_def returned_def)
next
  case (Some gc)
  then have cfg: "client self = Some gc" "is_configured self"
    by (simp_all split: if_splits)
  note unf = generate_questions_configured [OF cfg]
  show ?thesis
  proof (cases "gc (build_prompt resume jd)")
    case (Inl e)
    from assms(1) [OF cfg(1) Inl] have "attributes_present e" .
    from except_converts [OF this] Inl show ?thesis
      by (auto simp: unf Let_def)
  next
    case (Inr r)
    show ?thesis
    proof (cases "snd (questions_from_response loads r)")
      case (Inl e)
      from questions_from_response_fault [OF assms(2) Inl] have "attributes_present e" .
      from except_converts [OF this] Inl Inr show ?thesis
        by (auto simp: unf Let_def)
    next
      case r2: (Inr d)
      with Inr show ?thesis by (simp add: unf Let_def)
    qed
  qed
qed

text \<open>
  C2. Every fault raised by the call or while the response is processed should be
  turned into the normal return value. \<open>generate_answer_for_question\<close> does so
  (\<open>generate_answer_returns\<close>), and \<open>generate_questions_from_text\<close> does so for every
  fault but one kind (\<open>generate_questions_returns\<close>): when the call raises a
  GoogleAPIError without a \<^verbatim>\<open>code\<close> attribute, as the retry timeout of the client
  library does, the handler itself raises AttributeError while it formats the message,
  and that exception leaves the operation.
\<close>

theorem retry_error_leaves_generate_questions:
  "generate_questions_from_text loads_sample (sample_generator (Inl retry_error))
     (ustr ''resume'') None =
   ([GenerateContent (build_prompt (ustr ''resume'') None)],
    Inl (AttributeError (no_attribute (ustr ''RetryError'') (ustr ''code''))))"
  by (simp add: generate_questions_from_text_def sample_generator_def retry_error_def
      questions_except_def Let_def)

text \<open>
  C4. In every call of \<open>generate_questions_from_text\<close> on a configured generator the
  prompt sent is the fixed text around the resume and the job-description section;
  that section is the sentence \<open>No job description provided.\<close> when the job
  description is absent, empty or made of whitespace only, and otherwise the
  job-description block with the given text inside.
\<close>

theorem prompt_job_description_section:
  assumes "client self = Some gc" "is_configured self"
  shows "\<exists>evs. fst (generate_questions_from_text loads self resume jd) =
     GenerateContent
       (prompt_head @ resume @ prompt_mid @
        (case jd of
           None \<Rightarrow> ustr ''No job description provided.''
         | Some t \<Rightarrow>
             if list_all is_space t then ustr ''No job description provided.''
             else job_description_open @ t @ job_description_close) @
        prompt_tail) # evs"
proof -
  have s: "job_description_section jd =
      (case jd of
         None \<Rightarrow> ustr ''No job description provided.''
       | Some t \<Rightarrow>
           if list_all is_space t then ustr ''No job description provided.''
           else job_description_open @ t @ job_description_close)"
    by (auto simp: job_description_section_def str_strip_empty_iff split: option.splits)
  have "\<exists>evs. fst (generate_questions_from_text loads self resume jd) =
      GenerateContent (build_prompt resume jd) # evs"
    by (simp add: generate_questions_configured [OF assms] Let_def split: sum.splits)
  then show ?thesis
    by (simp add: build_prompt_def s)
qed

theorem prompt_job_description_section_witness:
  "client (sample_generator (Inr (stop_response sample_payload))) =
     Some (\<lambda>prompt. Inr (stop_response sample_payload)) \<and>
   is_configured (sample_generator (Inr (stop_response sample_payload))) \<and>
   (\<exists>evs. fst (generate_questions_from_text loads_sample
        (sample_generator (Inr (stop_response sample_payload)))
        (ustr ''resume'') (Some (ustr ''   ''))) =
      GenerateContent
        (prompt_head @ ustr ''resume'' @ prompt_mid @ ustr ''No job description provided.'' @
         prompt_tail) # evs) \<and>
   (\<exists>evs. fst (generate_questions_from_text loads_sample
        (sample_generator (Inr (stop_response sample_payload)))
        (ustr ''resume'') (Some (ustr ''Backend intern''))) =
      GenerateContent
        (prompt_head @ ustr ''resume'' @ prompt_mid @
         (job_description_open @ ustr ''Backend intern'' @ job_description_close) @
         prompt_tail) # evs)"
proof -
  have c: "client (sample_generator (Inr (stop_response sample_payload))) =
      Some (\<lambda>prompt. Inr (stop_response sample_payload))"
    and i: "is_configured (sample_generator (Inr (stop_response sample_payload)))"
    by (simp_all add: sample_generator_def)
  have w: "list_all is_space (ustr ''   '')"
    and n: "\<not> list_all is_space (ustr ''Backend intern'')"
    by (simp_all add: ustr_def is_space_def)
  from prompt_job_description_section [OF c i, of loads_sample "ustr ''resume''" "Some (ustr ''   '')"]
    prompt_job_description_section [OF c i, of loads_sample "ustr ''resume''"
      "Some (ustr ''Backend intern'')"]
    c i w n show ?thesis by simp
qed

lemma questions_from_response_decode:
  assumes "blocked_feedback r = None" "candidates r = c # cs"
    and "\<not> list_all is_space (generated_text_of c)"
  shows "\<exists>w. questions_from_response loads r =
           (w, case loads (clean_generated_text (generated_text_of c)) of
                 Inl e \<Rightarrow> Inl e
               | Inr q \<Rightarrow> question_dict q) \<and>
         (w = [] \<or> (\<exists>m. w = [StWarning m]))"
proof -
  from assms(3) have ne: "str_strip (generated_text_of c) \<noteq> []"
    by (simp add: str_strip_empty_iff)
  then have "generated_text_of c \<noteq> []"
    by (auto simp: str_strip_def)
  then have "has_usable_content c" by (rule generated_text_usable)
  from check_finish_usable [OF this] obtain w where w: "check_finish_reason c = Inr w"
    by blast
  from check_finish_Inr [OF w] have "w = [] \<or> (\<exists>m. w = [StWarning m])" by simp
  moreover from assms(1,2) w ne have "questions_from_response loads r =
      (w, case loads (clean_generated_text (generated_text_of c)) of
            Inl e \<Rightarrow> Inl e
          | Inr q \<Rightarrow> question_dict q)"
    by (simp add: questions_from_response_def Let_def split: sum.splits)
  ultimately show ?thesis by blast
qed

lemma generate_questions_decoded:
  assumes "client self = Some gc" "is_configured self"
    and "gc (build_prompt resume jd) = Inr r"
    and "blocked_feedback r = None" "candidates r = c # cs"
    and "\<not> list_all is_space (generated_text_of c)"
    and "loads (clean_generated_text (generated_text_of c)) = Inr (JObj kvs)"
  shows "\<exists>w. generate_questions_from_text loads self resume jd =
           (GenerateContent (build_prompt resume jd) # w,
            Inr [(ustr ''technical'', dict_get kvs (ustr ''technical'') (JArr [])),
                 (ustr ''behavioral'', dict_get kvs (ustr ''behavioral'') (JArr [])),
                 (ustr ''project_specific'', dict_get kvs (ustr ''project_specific'') (JArr [])),
                 (ustr ''scenario_based'', dict_get kvs (ustr ''scenario_based'') (JArr []))]) \<and>
         (w = [] \<or> (\<exists>m. w = [StWarning m]))"
proof -
  from questions_from_response_decode [OF assms(4,5,6), of loads] assms(7)
  obtain w where "questions_from_response loads r = (w, question_dict (JObj kvs))"
    and "w = [] \<or> (\<exists>m. w = [StWarning m])"
    by auto
  with assms(3) show ?thesis
    by (simp add: generate_questions_configured [OF assms(1,2)] Let_def question_dict_def)
qed

lemma question_keys_distinct:
  "ustr ''technical'' \<noteq> ustr ''behavioral''"
  "ustr ''technical'' \<noteq> ustr ''project_specific''"
  "ustr ''technical'' \<noteq> ustr ''scenario_based''"
  "ustr ''behavioral'' \<noteq> ustr ''project_specific''"
  "ustr ''behavioral'' \<noteq> ustr ''scenario_based''"
  "ustr ''project_specific'' \<noteq> ustr ''scenario_based''"
  by (simp_all add: ustr_def)

text \<open>
  C5. Round trip. When the response is not blocked, its first candidate carries text
  that is not blank, and the cleaned text decodes to a JSON object whose keys are
  exactly \<open>technical\<close>, \<open>behavioral\<close>, \<open>project_specific\<close> and \<open>scenario_based\<close>, the
  returned question set is equal to that object as a map: the same keys with the same
  values, so each sequence is returned element for element in its order. The values
  need not even be sequences of strings.
\<close>

theorem well_formed_payload_round_trip:
  assumes "client self = Some gc" "is_configured self"
    and "gc (build_prompt resume jd) = Inr r"
    and "blocked_feedback r = None" "candidates r = c # cs"
    and "\<not> list_all is_space (generated_text_of c)"
    and "loads (clean_generated_text (generated_text_of c)) = Inr (JObj kvs)"
    and "set (map fst kvs) = set question_keys"
  shows "\<exists>evs d. generate_questions_from_text loads self resume jd = (evs, Inr d) \<and>
           map_of d = map_of kvs"
proof -
  from generate_questions_decoded [where gc = gc and loads = loads, OF assms(1-7)] obtain w where
    g: "generate_questions_from_text loads self resume jd =
           (GenerateContent (build_prompt resume jd) # w,
            Inr [(ustr ''technical'', dict_get kvs (ustr ''technical'') (JArr [])),
                 (ustr ''behavioral'', dict_get kvs (ustr ''behavioral'') (JArr [])),
                 (ustr ''project_specific'', dict_get kvs (ustr ''project_specific'') (JArr [])),
                 (ustr ''scenario_based'', dict_get kvs (ustr ''scenario_based'') (JArr []))])"
    by blast
  have dom: "dom (map_of kvs) = set question_keys"
    using assms(8) by (simp add: dom_map_of_conv_image_fst)
  have present: "map_of kvs k = Some (dict_get kvs k dflt)" if "k \<in> set question_keys" for k dflt
  proof -
    from that dom have "k \<in> dom (map_of kvs)" by simp
    then obtain v where "map_of kvs k = Some v" by blast
    then show ?thesis by (simp add: dict_get_def)
  qed
  have absent: "map_of kvs k = None" if "k \<notin> set question_keys" for k
  proof -
    from that dom have "k \<notin> dom (map_of kvs)" by simp
    then show ?thesis by blast
  qed
  have t: "map_of kvs (ustr ''technical'') = Some (dict_get kvs (ustr ''technical'') (JArr []))"
    and b: "map_of kvs (ustr ''behavioral'') = Some (dict_get kvs (ustr ''behavioral'') (JArr []))"
    and p: "map_of kvs (ustr ''project_specific'') =
              Some (dict_get kvs (ustr ''project_specific'') (JArr []))"
    and s: "map_of kvs (ustr ''scenario_based'') =
              Some (dict_get kvs (ustr ''scenario_based'') (JArr []))"
    by (rule present, simp add: question_keys_def)+
  have "map_of [(ustr ''technical'', dict_get kvs (ustr ''technical'') (JArr [])),
                 (ustr ''behavioral'', dict_get kvs (ustr ''behavioral'') (JArr [])),
                 (ustr ''project_specific'', dict_get kvs (ustr ''project_specific'') (JArr [])),
                 (ustr ''scenario_based'', dict_get kvs (ustr ''scenario_based'') (JArr []))] k =
        map_of kvs k" for k
  proof -
    consider "k = ustr ''technical''" | "k = ustr ''behavioral''"
      | "k = ustr ''project_specific''" | "k = ustr ''scenario_based''"
      | "k \<notin> set question_keys"
      by (auto simp: question_keys_def)
    then show ?thesis
    proof cases
      case 1
      then show ?thesis by (simp add: t)
    next
      case 2
      then show ?thesis by (simp add: b question_keys_distinct)
    next
      case 3
      then show ?thesis by (simp add: p question_keys_distinct)
    next
      case 4
      then show ?thesis by (simp add: s question_keys_distinct)
    next
      case 5
      then have "k \<noteq> ustr ''technical''" "k \<noteq> ustr ''behavioral''"
        "k \<noteq> ustr ''project_specific''" "k \<noteq> ustr ''scenario_based''"
        by (auto simp: question_keys_def)
      with absent [OF 5] show ?thesis by simp
    qed
  qed
  then have "map_of [(ustr ''technical'', dict_get kvs (ustr ''technical'') (JArr [])),
                 (ustr ''behavioral'', dict_get kvs (ustr ''behavioral'') (JArr [])),
                 (ustr ''project_specific'', dict_get kvs (ustr ''project_specific'') (JArr [])),
                 (ustr ''scenario_based'', dict_get kvs (ustr ''scenario_based'') (JArr []))] =
        map_of kvs"
    by (rule ext)
  with g show ?thesis by blast
qed



text \<open>
  C6. When the cleaned text decodes to any JSON object, the call returns a question
  set and reports no error: its keys are the four expected ones and no other, each
  expected key holds the object's value for it, and an expected key that the object
  lacks holds the empty list.
\<close>

theorem lenient_key_merge:
  assumes "client self = Some gc" "is_configured self"
    and "gc (build_prompt resume jd) = Inr r"
    and "blocked_feedback r = None" "candidates r = c # cs"
    and "\<not> list_all is_space (generated_text_of c)"
    and "loads (clean_generated_text (generated_text_of c)) = Inr (JObj kvs)"
  shows "\<exists>evs d. generate_questions_from_text loads self resume jd = (evs, Inr d) \<and>
           (\<forall>m. StError m \<notin> set evs) \<and>
           map fst d = question_keys \<and>
           (\<forall>k\<in>set question_keys.
              map_of d k = Some (case map_of kvs k of Some v \<Rightarrow> v | None \<Rightarrow> JArr []))"
proof -
  from generate_questions_decoded [where gc = gc and loads = loads, OF assms] obtain w where
    g: "generate_questions_from_text loads self resume jd =
           (GenerateContent (build_prompt resume jd) # w,
            Inr [(ustr ''technical'', dict_get kvs (ustr ''technical'') (JArr [])),
                 (ustr ''behavioral'', dict_get kvs (ustr ''behavioral'') (JArr [])),
                 (ustr ''project_specific'', dict_get kvs (ustr ''project_specific'') (JArr [])),
                 (ustr ''scenario_based'', dict_get kvs (ustr ''scenario_based'') (JArr []))])"
    and w: "w = [] \<or> (\<exists>m. w = [StWarning m])"
    by blast
  from w have "\<forall>m. StError m \<notin> set (GenerateContent (build_prompt resume jd) # w)"
    by auto
  with g show ?thesis
    by (auto simp: question_keys_def question_keys_distinct dict_get_def)
qed



lemma generated_text_candidate: "generated_text_of (text_candidate reason t) = t"
  by (simp add: generated_text_of_def text_candidate_def join_parts_def part_has_text_def)

lemma clean_sample_payload: "clean_generated_text sample_payload = sample_payload"
  by (simp add: clean_generated_text_def sample_payload_def text_defs)

lemma clean_partial_payload: "clean_generated_text partial_payload = partial_payload"
  by (simp add: clean_generated_text_def partial_payload_def text_defs)

lemma loads_sample_payload: "loads_sample sample_payload = Inr sample_object"
  by (simp add: loads_sample_def)

lemma loads_partial_payload: "loads_sample partial_payload = Inr partial_object"
  by (simp add: loads_sample_def sample_payload_def partial_payload_def ustr_def)

lemma sample_payload_not_blank: "\<not> list_all is_space sample_payload"
  by (simp add: sample_payload_def ustr_def is_space_def)

lemma partial_payload_not_blank: "\<not> list_all is_space partial_payload"
  by (simp add: partial_payload_def ustr_def is_space_def)

theorem well_formed_payload_round_trip_witness:
  "blocked_feedback (stop_response sample_payload) = None \<and>
   loads_sample (clean_generated_text sample_payload) =
     Inr (JObj [(ustr ''technical'', JArr [JStr (ustr ''Q1'')]), (ustr ''behavioral'', JArr []),
                (ustr ''project_specific'', JArr []), (ustr ''scenario_based'', JArr [])]) \<and>
   (\<exists>evs d. generate_questions_from_text loads_sample
        (sample_generator (Inr (stop_response sample_payload))) (ustr ''resume'') None =
        (evs, Inr d) \<and>
      map_of d =
        map_of [(ustr ''technical'', JArr [JStr (ustr ''Q1'')]), (ustr ''behavioral'', JArr []),
                (ustr ''project_specific'', JArr []), (ustr ''scenario_based'', JArr [])])"
proof -
  let ?stop = "\<lparr>ev_int = 1, ev_str = ustr ''FinishReason.STOP'', ev_fmt = ustr ''1''\<rparr>"
  let ?kvs = "[(ustr ''technical'', JArr [JStr (ustr ''Q1'')]), (ustr ''behavioral'', JArr []),
               (ustr ''project_specific'', JArr []), (ustr ''scenario_based'', JArr [])]"
  have c: "client (sample_generator (Inr (stop_response sample_payload))) =
      Some (\<lambda>prompt. Inr (stop_response sample_payload))"
    and i: "is_configured (sample_generator (Inr (stop_response sample_payload)))"
    by (simp_all add: sample_generator_def)
  have call: "(\<lambda>prompt. Inr (stop_response sample_payload)) (build_prompt (ustr ''resume'') None) =
      Inr (stop_response sample_payload)"
    by simp
  have nb: "blocked_feedback (stop_response sample_payload) = None"
    by (simp add: blocked_feedback_def stop_response_def)
  have cand: "candidates (stop_response sample_payload) = text_candidate ?stop sample_payload # []"
    by (simp add: stop_response_def)
  have nbl: "\<not> list_all is_space (generated_text_of (text_candidate ?stop sample_payload))"
    by (simp add: generated_text_candidate sample_payload_not_blank)
  have dec: "loads_sample (clean_generated_text (generated_text_of (text_candidate ?stop sample_payload))) =
      Inr (JObj ?kvs)"
    by (simp only: generated_text_candidate clean_sample_payload loads_sample_payload
        sample_object_def)
  have keys: "set (map fst ?kvs) = set question_keys"
    by (simp add: question_keys_def)
  from well_formed_payload_round_trip [where gc = "\<lambda>prompt. Inr (stop_response sample_payload)"
      and loads = loads_sample, OF c i call nb cand nbl dec keys] nb dec
  show ?thesis
    by (simp only: generated_text_candidate)
qed

theorem lenient_key_merge_witness:
  "blocked_feedback (cut_response partial_payload) = None \<and>
   loads_sample (clean_generated_text partial_payload) =
     Inr (JObj [(ustr ''technical'', JArr [JStr (ustr ''Q1'')]), (ustr ''notes'', JStr (ustr ''n''))]) \<and>
   (\<exists>evs d. generate_questions_from_text loads_sample
        (sample_generator (Inr (cut_response partial_payload))) (ustr ''resume'') None =
        (evs, Inr d) \<and>
      (\<forall>m. StError m \<notin> set evs) \<and>
      map fst d = question_keys \<and>
      map_of d (ustr ''technical'') = Some (JArr [JStr (ustr ''Q1'')]) \<and>
      map_of d (ustr ''behavioral'') = Some (JArr []) \<and>
      map_of d (ustr ''project_specific'') = Some (JArr []) \<and>
      map_of d (ustr ''scenario_based'') = Some (JArr []))"
proof -
  let ?cut = "\<lparr>ev_int = 2, ev_str = ustr ''FinishReason.MAX_TOKENS'', ev_fmt = ustr ''2''\<rparr>"
  let ?kvs = "[(ustr ''technical'', JArr [JStr (ustr ''Q1'')]), (ustr ''notes'', JStr (ustr ''n''))]"
  have c: "client (sample_generator (Inr (cut_response partial_payload))) =
      Some (\<lambda>prompt. Inr (cut_response partial_payload))"
    and i: "is_configured (sample_generator (Inr (cut_response partial_payload)))"
    by (simp_all add: sample_generator_def)
  have call: "(\<lambda>prompt. Inr (cut_response partial_payload)) (build_prompt (ustr ''resume'') None) =
      Inr (cut_response partial_payload)"
    by simp
  have nb: "blocked_feedback (cut_response partial_payload) = None"
    by (simp add: blocked_feedback_def cut_response_def)
  have cand: "candidates (cut_response partial_payload) = text_candidate ?cut partial_payload # []"
    by (simp add: cut_response_def)
  have nbl: "\<not> list_all is_space (generated_text_of (text_candidate ?cut partial_payload))"
    by (simp add: generated_text_candidate partial_payload_not_blank)
  have dec: "loads_sample (clean_generated_text (generated_text_of (text_candidate ?cut partial_payload))) =
      Inr (JObj ?kvs)"
    by (simp only: generated_text_candidate clean_partial_payload loads_partial_payload
        partial_object_def)
  have look: "map_of ?kvs (ustr ''technical'') = Some (JArr [JStr (ustr ''Q1'')])"
    "map_of ?kvs (ustr ''behavioral'') = None"
    "map_of ?kvs (ustr ''project_specific'') = None"
    "map_of ?kvs (ustr ''scenario_based'') = None"
    by (simp_all add: ustr_def)
  from lenient_key_merge [where gc = "\<lambda>prompt. Inr (cut_response partial_payload)"
      and loads = loads_sample, OF c i call nb cand nbl dec]
  obtain evs d where r: "generate_questions_from_text loads_sample
        (sample_generator (Inr (cut_response partial_payload))) (ustr ''resume'') None =
        (evs, Inr d)"
    and e: "\<forall>m. StError m \<notin> set evs" and k: "map fst d = question_keys"
    and v: "\<forall>k\<in>set question_keys.
              map_of d k = Some (case map_of ?kvs k of Some v \<Rightarrow> v | None \<Rightarrow> JArr [])"
    by blast
  from v look have "map_of d (ustr ''technical'') = Some (JArr [JStr (ustr ''Q1'')])"
    "map_of d (ustr ''behavioral'') = Some (JArr [])"
    "map_of d (ustr ''project_specific'') = Some (JArr [])"
    "map_of d (ustr ''scenario_based'') = Some (JArr [])"
    by (simp_all add: question_keys_def)
  with r e k nb dec show ?thesis
    by (simp only: generated_text_candidate) blast
qed

lemma clean_fenced:
  assumes "str_strip t = ustr ''```json'' @ body @ ustr ''```''"
  shows "clean_generated_text t = body"
proof -
  have l7: "length (ustr ''```json'') = 7" and l3: "length (ustr ''```'') = 3"
    by (simp_all add: ustr_def)
  have p: "startswith (ustr ''```json'' @ body @ ustr ''```'') (ustr ''```json'')"
    by (simp add: startswith_def)
  have d: "drop 7 (ustr ''```json'' @ body @ ustr ''```'') = body @ ustr ''```''"
    using l7 by simp
  have s: "endswith (body @ ustr ''```'') (ustr ''```'')"
    by (simp add: endswith_def suffix_def)
  have k: "take (length (body @ ustr ''```'') - 3) (body @ ustr ''```'') = body"
    using l3 by simp
  show ?thesis
    unfolding clean_generated_text_def assms Let_def
    by (simp only: p d s k if_True)
qed

lemma clean_plain:
  assumes "\<not> startswith (str_strip t) (ustr ''```json'')"
    and "\<not> endswith (str_strip t) (ustr ''```'')"
  shows "clean_generated_text t = str_strip t"
  using assms by (simp add: clean_generated_text_def Let_def)

lemma fenced_not_blank:
  assumes "str_strip t = ustr ''```json'' @ body @ ustr ''```''"
  shows "\<not> list_all is_space t"
proof
  assume "list_all is_space t"
  then have "str_strip t = []" by (simp add: str_strip_empty_iff)
  with assms show False by (simp add: ustr_def)
qed

lemma generate_questions_result:
  assumes "client self = Some gc" "is_configured self"
    and "gc (build_prompt resume jd) = Inr r"
    and "blocked_feedback r = None" "candidates r = c # cs"
    and "\<not> list_all is_space (generated_text_of c)"
  shows "snd (generate_questions_from_text loads self resume jd) =
     (case (case loads (clean_generated_text (generated_text_of c)) of
              Inl e \<Rightarrow> Inl e
            | Inr q \<Rightarrow> question_dict q) of
        Inr d \<Rightarrow> Inr d
      | Inl e \<Rightarrow> (case questions_except e of Inl e' \<Rightarrow> Inl e' | Inr err \<Rightarrow> Inr (snd err)))"
proof -
  from questions_from_response_decode [OF assms(4,5,6), of loads]
  obtain w where "questions_from_response loads r =
      (w, case loads (clean_generated_text (generated_text_of c)) of
            Inl e \<Rightarrow> Inl e
          | Inr q \<Rightarrow> question_dict q)"
    by blast
  with assms(3) show ?thesis
    by (simp add: generate_questions_configured [OF assms(1,2)] Let_def split: sum.splits)
qed

lemma json_like_loads_sample: "json_like loads_sample"
  unfolding json_like_def
proof (intro allI impI)
  fix s v
  assume a: "loads_sample s = Inr v"
  have sp: "str_strip sample_payload = sample_payload"
    and sb: "str_strip (10 # sample_payload @ [10]) = sample_payload"
    and pp: "str_strip partial_payload = partial_payload"
    by (simp_all add: sample_payload_def partial_payload_def text_defs)
  have nf: "\<not> startswith sample_payload (ustr ''```json'')"
    "\<not> endswith sample_payload (ustr ''```'')"
    "\<not> startswith partial_payload (ustr ''```json'')"
    "\<not> endswith partial_payload (ustr ''```'')"
    by (simp_all add: sample_payload_def partial_payload_def text_defs)
  have nb: "\<not> list_all is_space (10 # sample_payload @ [10])"
    by (simp add: sample_payload_def ustr_def is_space_def)
  from a consider "s = sample_payload" "v = sample_object"
    | "s = 10 # sample_payload @ [10]" "v = sample_object"
    | "s = partial_payload" "v = partial_object"
    by (auto simp: loads_sample_def split: if_splits)
  then show "\<not> list_all is_space s \<and> loads_sample (str_strip s) = Inr v \<and>
        \<not> startswith (str_strip s) (ustr ''```json'') \<and>
        \<not> endswith (str_strip s) (ustr ''```'')"
  proof cases
    case 1
    then show ?thesis
      by (simp add: sp nf sample_payload_not_blank loads_sample_payload)
  next
    case 2
    then show ?thesis
      by (simp only: sb nf nb loads_sample_payload simp_thms)
  next
    case 3
    then show ?thesis
      by (simp add: pp nf partial_payload_not_blank loads_partial_payload)
  qed
qed

text \<open>
  C7. Code-fence stripping. Take a decoder that accepts what \<^verbatim>\<open>json.loads\<close> accepts, a
  response whose text after trimming is \<open>```json\<close>, a body and \<open>```\<close>, and a response
  whose text is the body alone, neither response blocked. When the body parses to a
  value, the call on the fenced text decodes exactly that value, and the two calls
  return the same result: the question set read from the value.
\<close>

theorem code_fence_stripping:
  assumes "json_like loads"
    and "client self1 = Some gc1" "is_configured self1"
    and "gc1 (build_prompt resume jd) = Inr r1"
    and "blocked_feedback r1 = None" "candidates r1 = c1 # cs1"
    and "client self2 = Some gc2" "is_configured self2"
    and "gc2 (build_prompt resume jd) = Inr r2"
    and "blocked_feedback r2 = None" "candidates r2 = c2 # cs2"
    and "str_strip (generated_text_of c1) = ustr ''```json'' @ body @ ustr ''```''"
    and "generated_text_of c2 = body"
    and "loads body = Inr v"
  shows "snd (generate_questions_from_text loads self1 resume jd) =
           (case question_dict v of
              Inr d \<Rightarrow> Inr d
            | Inl e \<Rightarrow> (case questions_except e of Inl e' \<Rightarrow> Inl e' | Inr err \<Rightarrow> Inr (snd err))) \<and>
         snd (generate_questions_from_text loads self2 resume jd) =
           snd (generate_questions_from_text loads self1 resume jd)"
proof -
  from assms(1,14) have nb: "\<not> list_all is_space body"
    and ls: "loads (str_strip body) = Inr v"
    and ns: "\<not> startswith (str_strip body) (ustr ''```json'')"
    and ne: "\<not> endswith (str_strip body) (ustr ''```'')"
    by (simp_all add: json_like_def)
  have n1: "\<not> list_all is_space (generated_text_of c1)"
    using assms(12) by (rule fenced_not_blank)
  have n2: "\<not> list_all is_space (generated_text_of c2)"
    using assms(13) nb by simp
  have t1: "clean_generated_text (generated_text_of c1) = body"
    using assms(12) by (rule clean_fenced)
  have t2: "clean_generated_text (generated_text_of c2) = str_strip body"
    using assms(13) ns ne by (simp add: clean_plain)
  show ?thesis
    unfolding generate_questions_result [where gc = gc1 and loads = loads, OF assms(2-6) n1]
      generate_questions_result [where gc = gc2 and loads = loads, OF assms(7-11) n2]
      t1 t2 ls assms(14)
    by simp
qed

theorem code_fence_stripping_witness:
  "json_like loads_sample \<and>
   loads_sample (10 # sample_payload @ [10]) = Inr sample_object \<and>
   snd (generate_questions_from_text loads_sample
          (sample_generator
             (Inr (stop_response (ustr ''```json'' @ (10 # sample_payload @ [10]) @ ustr ''```''))))
          (ustr ''resume'') None) =
     Inr [(ustr ''technical'', JArr [JStr (ustr ''Q1'')]), (ustr ''behavioral'', JArr []),
          (ustr ''project_specific'', JArr []), (ustr ''scenario_based'', JArr [])] \<and>
   snd (generate_questions_from_text loads_sample
          (sample_generator (Inr (stop_response (10 # sample_payload @ [10]))))
          (ustr ''resume'') None) =
     Inr [(ustr ''technical'', JArr [JStr (ustr ''Q1'')]), (ustr ''behavioral'', JArr []),
          (ustr ''project_specific'', JArr []), (ustr ''scenario_based'', JArr [])]"
proof -
  let ?body = "10 # sample_payload @ [10]"
  let ?fenced = "ustr ''```json'' @ ?body @ ustr ''```''"
  let ?stop = "\<lparr>ev_int = 1, ev_str = ustr ''FinishReason.STOP'', ev_fmt = ustr ''1''\<rparr>"
  have c1: "client (sample_generator (Inr (stop_response ?fenced))) =
      Some (\<lambda>prompt. Inr (stop_response ?fenced))"
    and i1: "is_configured (sample_generator (Inr (stop_response ?fenced)))"
    and c2: "client (sample_generator (Inr (stop_response ?body))) =
      Some (\<lambda>prompt. Inr (stop_response ?body))"
    and i2: "is_configured (sample_generator (Inr (stop_response ?body)))"
    by (simp_all add: sample_generator_def)
  have call1: "(\<lambda>prompt. Inr (stop_response ?fenced)) (build_prompt (ustr ''resume'') None) =
      Inr (stop_response ?fenced)"
    and call2: "(\<lambda>prompt. Inr (stop_response ?body)) (build_prompt (ustr ''resume'') None) =
      Inr (stop_response ?body)"
    by simp_all
  have nb1: "blocked_feedback (stop_response ?fenced) = None"
    and nb2: "blocked_feedback (stop_response ?body) = None"
    by (simp_all add: blocked_feedback_def stop_response_def)
  have cand1: "candidates (stop_response ?fenced) = text_candidate ?stop ?fenced # []"
    and cand2: "candidates (stop_response ?body) = text_candidate ?stop ?body # []"
    by (simp_all add: stop_response_def)
  have sf: "str_strip ?fenced = ?fenced"
    by (simp add: sample_payload_def text_defs)
  have ld: "loads_sample ?body = Inr sample_object"
    by (simp add: loads_sample_def)
  have g1: "str_strip (generated_text_of (text_candidate ?stop ?fenced)) =
      ustr ''```json'' @ ?body @ ustr ''```''"
    by (simp only: generated_text_candidate sf)
  have g2: "generated_text_of (text_candidate ?stop ?body) = ?body"
    by (simp only: generated_text_candidate)
  have qd: "question_dict sample_object =
      Inr [(ustr ''technical'', JArr [JStr (ustr ''Q1'')]), (ustr ''behavioral'', JArr []),
           (ustr ''project_specific'', JArr []), (ustr ''scenario_based'', JArr [])]"
    by (simp add: question_dict_def sample_object_def dict_get_def question_keys_distinct
        question_keys_distinct [symmetric])
  from code_fence_stripping [where ?gc1.0 = "\<lambda>prompt. Inr (stop_response ?fenced)"
      and ?gc2.0 = "\<lambda>prompt. Inr (stop_response ?body)" and loads = loads_sample,
      OF json_like_loads_sample c1 i1 call1 nb1 cand1 c2 i2 call2 nb2 cand2 g1 g2 ld]
    json_like_loads_sample ld qd
  show ?thesis by simp
qed

text \<open>
  C8 as stated fails: \<open>generate_questions_from_text\<close> does not look at the resume
  text, and on a configured generator it sends the request for the empty resume too.
\<close>

theorem empty_resume_request_issued:
  "fst (generate_questions_from_text loads_sample
          (sample_generator (Inr (stop_response sample_payload))) [] None) =
   [GenerateContent (build_prompt [] None)]"
proof -
  let ?stop = "\<lparr>ev_int = 1, ev_str = ustr ''FinishReason.STOP'', ev_fmt = ustr ''1''\<rparr>"
  have f: "check_finish_reason (text_candidate ?stop sample_payload) = Inr []"
    by (simp add: check_finish_reason_def text_candidate_def)
  have n: "str_strip sample_payload \<noteq> []"
    using sample_payload_not_blank by (simp add: str_strip_empty_iff)
  have "questions_from_response loads_sample (stop_response sample_payload) =
      ([], question_dict sample_object)"
    by (simp add: questions_from_response_def blocked_feedback_def stop_response_def f n
        generated_text_candidate clean_sample_payload loads_sample_payload)
  then show ?thesis
    by (simp add: generate_questions_from_text_def sample_generator_def Let_def
        question_dict_def sample_object_def)
qed

text \<open>
  C8, as amended. The check is made by the caller: a click on the generate button
  while the extracted resume text is absent or empty issues no request to the
  generation service.
\<close>

theorem no_request_without_resume_text:
  assumes "resume_text = None \<or> resume_text = Some []"
  shows "\<forall>p. GenerateContent p \<notin>
           set (fst (generate_button_clicked loads ai_question_gen resume_text job_description))"
  using assms
  by (auto simp: generate_button_clicked_def split: option.splits)

theorem no_request_without_resume_text_witness:
  "\<forall>p. GenerateContent p \<notin>
     set (fst (generate_button_clicked loads_sample
       (Some (sample_generator (Inr (stop_response sample_payload)))) (Some [])
       (ustr ''Backend intern'')))"
  using no_request_without_resume_text [of "Some []" loads_sample
      "Some (sample_generator (Inr (stop_response sample_payload)))" "ustr ''Backend intern''"]
  by simp


section \<open>Properties of the answer generator\<close>

lemma answer_prompt_call:
  assumes "client self = Some gc" "is_configured self" "question_text \<noteq> []"
    and "gc (answer_prompt_head @ question_text @ answer_prompt_tail) = Inr r"
  shows "generate_answer_for_question self question_text =
     ([GenerateContent (answer_prompt_head @ question_text @ answer_prompt_tail)],
      Inr (answer_from_response r))"
  using assms(4) by (simp add: generate_answer_configured [OF assms(1-3)])

text \<open>
  C3, as amended. \<open>generate_answer_for_question\<close> classifies by a shorter protocol
  than the question generator. For a response that is not blocked and has a
  candidate: when the first candidate ended for a reason other than the normal stop,
  the result is the diagnostic naming that reason, whatever content the candidate
  carries, and no warning is shown; when it ended with the normal stop and its text is
  not blank, the result is the trimmed concatenated text.
\<close>

theorem answer_classification:
  assumes "client self = Some gc" "is_configured self" "question_text \<noteq> []"
    and "gc (answer_prompt_head @ question_text @ answer_prompt_tail) = Inr r"
    and "blocked_feedback r = None" "candidates r = c # cs"
  shows "(ev_int (finish_reason c) \<noteq> 1 \<longrightarrow>
            generate_answer_for_question self question_text =
              ([GenerateContent (answer_prompt_head @ question_text @ answer_prompt_tail)],
               Inr (ustr ''Answer generation finished atypically. Reason: '' @
                    ev_fmt (finish_reason c)))) \<and>
         (ev_int (finish_reason c) = 1 \<and> \<not> list_all is_space (generated_text_of c) \<longrightarrow>
            generate_answer_for_question self question_text =
              ([GenerateContent (answer_prompt_head @ question_text @ answer_prompt_tail)],
               Inr (str_strip (generated_text_of c))))"
proof (intro conjI impI)
  assume "ev_int (finish_reason c) \<noteq> 1"
  with assms(5,6) show "generate_answer_for_question self question_text =
      ([GenerateContent (answer_prompt_head @ question_text @ answer_prompt_tail)],
       Inr (ustr ''Answer generation finished atypically. Reason: '' @ ev_fmt (finish_reason c)))"
    by (simp add: answer_prompt_call [OF assms(1-4)] answer_from_response_def)
next
  assume a: "ev_int (finish_reason c) = 1 \<and> \<not> list_all is_space (generated_text_of c)"
  then have "generated_text_of c \<noteq> []" by auto
  then obtain ct where ct: "content c = Some ct" "parts ct \<noteq> []"
    "generated_text_of c = join_parts (parts ct)"
    by (auto simp: generated_text_of_def split: option.splits if_splits)
  with a assms(5,6) show "generate_answer_for_question self question_text =
      ([GenerateContent (answer_prompt_head @ question_text @ answer_prompt_tail)],
       Inr (str_strip (generated_text_of c)))"
    by (simp add: answer_prompt_call [OF assms(1-4)] answer_from_response_def)
qed

text \<open>
  C3 as stated fails: for a candidate cut at the token limit that carries the text
  \<open>partial answer\<close>, no warning is shown and the result is the diagnostic, not the
  text.
\<close>

theorem partial_answer_discarded:
  "fst (generate_answer_for_question
          (sample_generator (Inr (cut_response (ustr ''partial answer''))))
          (ustr ''What is a hash map?'')) =
     [GenerateContent (answer_prompt_head @ ustr ''What is a hash map?'' @ answer_prompt_tail)] \<and>
   snd (generate_answer_for_question
          (sample_generator (Inr (cut_response (ustr ''partial answer''))))
          (ustr ''What is a hash map?'')) =
     Inr (ustr ''Answer generation finished atypically. Reason: 2'') \<and>
   snd (generate_answer_for_question
          (sample_generator (Inr (cut_response (ustr ''partial answer''))))
          (ustr ''What is a hash map?'')) \<noteq>
     Inr (str_strip (ustr ''partial answer''))"
proof -
  have q: "ustr ''What is a hash map?'' \<noteq> []"
    by (simp add: ustr_def)
  have r: "answer_from_response (cut_response (ustr ''partial answer'')) =
      ustr ''Answer generation finished atypically. Reason: 2''"
    by (simp add: answer_from_response_def blocked_feedback_def cut_response_def
        text_candidate_def ustr_def)
  have d: "ustr ''Answer generation finished atypically. Reason: 2'' \<noteq>
      str_strip (ustr ''partial answer'')"
    by (simp add: text_defs)
  from q r d show ?thesis
    by (simp add: generate_answer_for_question_def sample_generator_def Let_def)
qed

theorem answer_classification_witness:
  "generate_answer_for_question
     (sample_generator (Inr (cut_response (ustr ''partial answer''))))
     (ustr ''What is a hash map?'') =
     ([GenerateContent (answer_prompt_head @ ustr ''What is a hash map?'' @ answer_prompt_tail)],
      Inr (ustr ''Answer generation finished atypically. Reason: '' @ ustr ''2'')) \<and>
   generate_answer_for_question
     (sample_generator (Inr (stop_response (ustr '' A hash map stores pairs. ''))))
     (ustr ''What is a hash map?'') =
     ([GenerateContent (answer_prompt_head @ ustr ''What is a hash map?'' @ answer_prompt_tail)],
      Inr (ustr ''A hash map stores pairs.''))"
proof -
  let ?q = "ustr ''What is a hash map?''"
  let ?p = "answer_prompt_head @ ?q @ answer_prompt_tail"
  let ?cut = "\<lparr>ev_int = 2, ev_str = ustr ''FinishReason.MAX_TOKENS'', ev_fmt = ustr ''2''\<rparr>"
  let ?stop = "\<lparr>ev_int = 1, ev_str = ustr ''FinishReason.STOP'', ev_fmt = ustr ''1''\<rparr>"
  let ?r1 = "cut_response (ustr ''partial answer'')"
  let ?r2 = "stop_response (ustr '' A hash map stores pairs. '')"
  have q: "?q \<noteq> []" by (simp add: ustr_def)
  have c1: "client (sample_generator (Inr ?r1)) = Some (\<lambda>prompt. Inr ?r1)"
    and i1: "is_configured (sample_generator (Inr ?r1))"
    and c2: "client (sample_generator (Inr ?r2)) = Some (\<lambda>prompt. Inr ?r2)"
    and i2: "is_configured (sample_generator (Inr ?r2))"
    by (simp_all add: sample_generator_def)
  have call1: "(\<lambda>prompt. Inr ?r1) ?p = Inr ?r1" and call2: "(\<lambda>prompt. Inr ?r2) ?p = Inr ?r2"
    by simp_all
  have nb1: "blocked_feedback ?r1 = None" and nb2: "blocked_feedback ?r2 = None"
    by (simp_all add: blocked_feedback_def cut_response_def stop_response_def)
  have cand1: "candidates ?r1 = text_candidate ?cut (ustr ''partial answer'') # []"
    and cand2: "candidates ?r2 = text_candidate ?stop (ustr '' A hash map stores pairs. '') # []"
    by (simp_all add: cut_response_def stop_response_def)
  have f1: "ev_int (finish_reason (text_candidate ?cut (ustr ''partial answer''))) \<noteq> 1"
    "ev_fmt (finish_reason (text_candidate ?cut (ustr ''partial answer''))) = ustr ''2''"
    and f2: "ev_int (finish_reason (text_candidate ?stop (ustr '' A hash map stores pairs. ''))) = 1"
    by (simp_all add: text_candidate_def)
  have t2: "\<not> list_all is_space (ustr '' A hash map stores pairs. '')"
    "str_strip (ustr '' A hash map stores pairs. '') = ustr ''A hash map stores pairs.''"
    by (simp_all add: text_defs)
  from answer_classification [where gc = "\<lambda>prompt. Inr ?r1", OF c1 i1 q call1 nb1 cand1]
    answer_classification [where gc = "\<lambda>prompt. Inr ?r2", OF c2 i2 q call2 nb2 cand2]
    f1 f2 t2
  show ?thesis
    by (simp add: generated_text_candidate)
qed

lemma nominal_stop_answer:
  assumes "client self = Some gc" "is_configured self" "question_text \<noteq> []"
    and "gc (answer_prompt_head @ question_text @ answer_prompt_tail) = Inr r"
    and "blocked_feedback r = None" "candidates r = c # cs"
    and "ev_int (finish_reason c) = 1"
  shows "(\<forall>ct. content c = Some ct \<and> parts ct \<noteq> [] \<and>
              (\<forall>p\<in>set (parts ct). part_text p = None \<or> part_text p = Some []) \<longrightarrow>
            generate_answer_for_question self question_text =
              ([GenerateContent (answer_prompt_head @ question_text @ answer_prompt_tail)],
               Inr [])) \<and>
         (\<forall>ct. content c = Some ct \<and> parts ct \<noteq> [] \<longrightarrow>
            generate_answer_for_question self question_text =
              ([GenerateContent (answer_prompt_head @ question_text @ answer_prompt_tail)],
               Inr (str_strip (join_parts (parts ct))))) \<and>
         (content c = None \<or> (\<exists>ct. content c = Some ct \<and> parts ct = []) \<longrightarrow>
            generate_answer_for_question self question_text =
              ([GenerateContent (answer_prompt_head @ question_text @ answer_prompt_tail)],
               Inr (ustr ''No text content found in Gemini response for the answer.'')))"
proof -
  have blank: "join_parts ps = []"
    if "\<forall>p\<in>set ps. part_text p = None \<or> part_text p = Some []" for ps
    using that by (induction ps) (auto simp: join_parts_def part_has_text_def)
  have strip_nil: "str_strip [] = []"
    by (simp add: str_strip_def)
  from assms(5-7) show ?thesis
    by (auto simp: answer_prompt_call [OF assms(1-4)] answer_from_response_def blank strip_nil)
qed

lemma answer_from_response_empty:
  assumes "answer_from_response r = []"
  shows "blocked_feedback r = None \<and>
         (\<exists>c cs ct. candidates r = c # cs \<and> ev_int (finish_reason c) = 1 \<and>
            content c = Some ct \<and> parts ct \<noteq> [] \<and> list_all is_space (join_parts (parts ct)))"
proof -
  have lit: "ustr ''Answer generation blocked by Gemini. Reason: '' \<noteq> []"
    "ustr ''Gemini returned no candidates for the answer.'' \<noteq> []"
    "ustr ''Answer generation finished atypically. Reason: '' \<noteq> []"
    "ustr ''No text content found in Gemini response for the answer.'' \<noteq> []"
    by (simp_all add: ustr_def)
  from assms show ?thesis
    by (auto simp: answer_from_response_def lit str_strip_empty_iff
        split: option.splits list.splits if_splits)
qed

lemma generate_answer_empty:
  assumes "snd (generate_answer_for_question self question_text) = Inr []"
  shows "\<exists>gc r. client self = Some gc \<and> is_configured self \<and> question_text \<noteq> [] \<and>
           gc (answer_prompt_head @ question_text @ answer_prompt_tail) = Inr r \<and>
           answer_from_response r = []"
proof -
  have lit: "ustr ''Gemini client not configured. Cannot generate answer.'' \<noteq> []"
    "ustr ''No question provided to generate an answer.'' \<noteq> []"
    "ustr ''Error generating answer: '' \<noteq> []"
    by (simp_all add: ustr_def)
  from assms show ?thesis
    by (auto simp: generate_answer_for_question_def Let_def lit
        split: option.splits sum.splits if_splits)
qed

text \<open>
  C10, as amended. For a response that is not blocked and whose first candidate ended
  with the normal stop: when the content has parts and every part has an empty text or
  none, the result is the empty string and nothing but the request is in the trace;
  whenever the content has parts the result is the trimmed concatenation of their
  texts; the sentence \<open>No text content found in Gemini response for the answer.\<close> is
  returned when the content is absent or has no parts. Every diagnostic of the
  operation is a non-empty string: the result is the empty string only after a normal
  stop with parts whose concatenated text is blank, so a caller can tell this empty
  success from each error by looking at the result.
\<close>

theorem empty_answer_only_after_blank_parts:
  "(client self = Some gc \<and> is_configured self \<and> question_text \<noteq> [] \<and>
    gc (answer_prompt_head @ question_text @ answer_prompt_tail) = Inr r \<and>
    blocked_feedback r = None \<and> candidates r = c # cs \<and> ev_int (finish_reason c) = 1 \<longrightarrow>
      (\<forall>ct. content c = Some ct \<and> parts ct \<noteq> [] \<and>
            (\<forall>p\<in>set (parts ct). part_text p = None \<or> part_text p = Some []) \<longrightarrow>
          generate_answer_for_question self question_text =
            ([GenerateContent (answer_prompt_head @ question_text @ answer_prompt_tail)],
             Inr [])) \<and>
      (\<forall>ct. content c = Some ct \<and> parts ct \<noteq> [] \<longrightarrow>
          generate_answer_for_question self question_text =
            ([GenerateContent (answer_prompt_head @ question_text @ answer_prompt_tail)],
             Inr (str_strip (join_parts (parts ct))))) \<and>
      (content c = None \<or> (\<exists>ct. content c = Some ct \<and> parts ct = []) \<longrightarrow>
          generate_answer_for_question self question_text =
            ([GenerateContent (answer_prompt_head @ question_text @ answer_prompt_tail)],
             Inr (ustr ''No text content found in Gemini response for the answer.'')))) \<and>
   (snd (generate_answer_for_question self question_text) = Inr [] \<longrightarrow>
      (\<exists>gc' r' c' cs' ct'.
          client self = Some gc' \<and> is_configured self \<and> question_text \<noteq> [] \<and>
          gc' (answer_prompt_head @ question_text @ answer_prompt_tail) = Inr r' \<and>
          blocked_feedback r' = None \<and> candidates r' = c' # cs' \<and>
          ev_int (finish_reason c') = 1 \<and> content c' = Some ct' \<and> parts ct' \<noteq> [] \<and>
          list_all is_space (join_parts (parts ct'))))"
  (is "(?H \<longrightarrow> ?T) \<and> (?E \<longrightarrow> ?X)")
proof (rule conjI)
  show "?H \<longrightarrow> ?T"
  proof (rule impI)
    assume "?H"
    then have h: "client self = Some gc" "is_configured self" "question_text \<noteq> []"
      "gc (answer_prompt_head @ question_text @ answer_prompt_tail) = Inr r"
      "blocked_feedback r = None" "candidates r = c # cs" "ev_int (finish_reason c) = 1"
      by simp_all
    show "?T" by (rule nominal_stop_answer [where gc = gc, OF h])
  qed
next
  show "?E \<longrightarrow> ?X"
  proof (rule impI)
    assume "?E"
    from generate_answer_empty [OF this] obtain gc' r' where
      g: "client self = Some gc'" "is_configured self" "question_text \<noteq> []"
        "gc' (answer_prompt_head @ question_text @ answer_prompt_tail) = Inr r'"
      and e: "answer_from_response r' = []"
      by blast
    from answer_from_response_empty [OF e] g show "?X"
      by blast
  qed
qed

text \<open>
  C10 as stated fails in its last clause: the empty string returned for parts without
  text differs from the diagnostic returned for a response without content and from
  the one returned when the call raises.
\<close>

theorem empty_answer_told_from_diagnostics:
  "snd (generate_answer_for_question (sample_generator (Inr blank_parts_response))
          (ustr ''What is a hash map?'')) = Inr [] \<and>
   snd (generate_answer_for_question (sample_generator (Inr no_content_response))
          (ustr ''What is a hash map?'')) \<noteq>
   snd (generate_answer_for_question (sample_generator (Inr blank_parts_response))
          (ustr ''What is a hash map?'')) \<and>
   snd (generate_answer_for_question (sample_generator (Inl retry_error))
          (ustr ''What is a hash map?'')) \<noteq>
   snd (generate_answer_for_question (sample_generator (Inr blank_parts_response))
          (ustr ''What is a hash map?''))"
  by (simp add: generate_answer_for_question_def answer_from_response_def blocked_feedback_def
      join_parts_def part_has_text_def sample_generator_def blank_parts_response_def
      no_content_response_def retry_error_def text_defs)

theorem empty_answer_only_after_blank_parts_witness:
  "generate_answer_for_question (sample_generator (Inr blank_parts_response))
     (ustr ''What is a hash map?'') =
     ([GenerateContent (answer_prompt_head @ ustr ''What is a hash map?'' @ answer_prompt_tail)],
      Inr []) \<and>
   generate_answer_for_question (sample_generator (Inr no_content_response))
     (ustr ''What is a hash map?'') =
     ([GenerateContent (answer_prompt_head @ ustr ''What is a hash map?'' @ answer_prompt_tail)],
      Inr (ustr ''No text content found in Gemini response for the answer.'')) \<and>
   (\<exists>c ct. candidates blank_parts_response = [c] \<and> content c = Some ct \<and> parts ct \<noteq> [] \<and>
      list_all is_space (join_parts (parts ct)))"
proof -
  let ?q = "ustr ''What is a hash map?''"
  let ?p = "answer_prompt_head @ ?q @ answer_prompt_tail"
  let ?stop = "\<lparr>ev_int = 1, ev_str = ustr ''FinishReason.STOP'', ev_fmt = ustr ''1''\<rparr>"
  let ?ct = "\<lparr>parts = [\<lparr>part_text = Some []\<rparr>, \<lparr>part_text = None\<rparr>]\<rparr>"
  let ?ca = "\<lparr>finish_reason = ?stop, safety_ratings = [], content = Some ?ct\<rparr>"
  let ?cb = "\<lparr>finish_reason = ?stop, safety_ratings = [], content = None\<rparr>"
  let ?ra = "blank_parts_response"
  let ?rb = "no_content_response"
  have q: "?q \<noteq> []" by (simp add: ustr_def)
  have ca: "client (sample_generator (Inr ?ra)) = Some (\<lambda>prompt. Inr ?ra)"
    and ia: "is_configured (sample_generator (Inr ?ra))"
    and cb: "client (sample_generator (Inr ?rb)) = Some (\<lambda>prompt. Inr ?rb)"
    and ib: "is_configured (sample_generator (Inr ?rb))"
    by (simp_all add: sample_generator_def)
  have calla: "(\<lambda>prompt. Inr ?ra) ?p = Inr ?ra" and callb: "(\<lambda>prompt. Inr ?rb) ?p = Inr ?rb"
    by simp_all
  have nba: "blocked_feedback ?ra = None" and nbb: "blocked_feedback ?rb = None"
    by (simp_all add: blocked_feedback_def blank_parts_response_def no_content_response_def)
  have canda: "candidates ?ra = ?ca # []" and candb: "candidates ?rb = ?cb # []"
    by (simp_all add: blank_parts_response_def no_content_response_def)
  have fa: "ev_int (finish_reason ?ca) = 1" and fb: "ev_int (finish_reason ?cb) = 1"
    by simp_all
  have pa: "content ?ca = Some ?ct \<and> parts ?ct \<noteq> [] \<and>
      (\<forall>p\<in>set (parts ?ct). part_text p = None \<or> part_text p = Some [])"
    by simp
  have pb: "content ?cb = None"
    by simp
  have jb: "list_all is_space (join_parts (parts ?ct))"
    by (simp add: join_parts_def part_has_text_def)
  from empty_answer_only_after_blank_parts [where gc = "\<lambda>prompt. Inr ?ra" and self = "sample_generator (Inr ?ra)"
      and question_text = ?q and r = ?ra and c = ?ca and cs = "[]"]
    ca ia q calla nba canda fa pa
  have a: "generate_answer_for_question (sample_generator (Inr ?ra)) ?q =
      ([GenerateContent ?p], Inr [])"
    by blast
  from empty_answer_only_after_blank_parts [where gc = "\<lambda>prompt. Inr ?rb" and self = "sample_generator (Inr ?rb)"
      and question_text = ?q and r = ?rb and c = ?cb and cs = "[]"]
    cb ib q callb nbb candb fb pb
  have b: "generate_answer_for_question (sample_generator (Inr ?rb)) ?q =
      ([GenerateContent ?p], Inr (ustr ''No text content found in Gemini response for the answer.''))"
    by blast
  from a b canda pa jb show ?thesis by simp
qed

end
